theory Spec2Isabelle
  imports Complex_Main "HOL-Library.Multiset" "HOL-Library.List_Lexorder" "HOL-Library.Char_ord"
begin

section \<open>The JavaScript built-ins the matcher relies on\<close>

text \<open>
  The keyword matcher is TypeScript. Its own functions are embedded below, one HOL
  definition per source function, under the source's names. This section fixes the
  meaning of the language built-ins those functions call, following ECMAScript.

  Strings are \<open>string\<close>: one \<open>char\<close> per code unit, so the model covers the texts whose
  code units lie in the Latin-1 range. Embedding components are IEEE doubles in the
  program and \<open>real\<close> here: the arithmetic of the vectors is modelled without
  rounding, overflow and NaN.
\<close>

subsection \<open>Numbers that count things\<close>

text \<open>
  \<open>parseInt\<close> yields an integer or NaN. Every such number is only compared, clamped or
  used as the end of a \<open>slice\<close>, so the integer is kept exact.
\<close>

datatype js_number = NaN | Integer int

text \<open>\<open>Math.max\<close> and \<open>Math.min\<close>: NaN if either argument is NaN.\<close>

fun Math_max :: "js_number \<Rightarrow> js_number \<Rightarrow> js_number" where
  "Math_max (Integer a) (Integer b) = Integer (max a b)"
| "Math_max _ _ = NaN"

fun Math_min :: "js_number \<Rightarrow> js_number \<Rightarrow> js_number" where
  "Math_min (Integer a) (Integer b) = Integer (min a b)"
| "Math_min _ _ = NaN"

text \<open>
  \<open>xs.slice(0, end)\<close>: the end is converted with ToIntegerOrInfinity, so NaN counts as 0;
  a negative end counts from the back and is cut off at 0; an end past the length is the
  length.
\<close>

fun slice0 :: "'a list \<Rightarrow> js_number \<Rightarrow> 'a list" where
  "slice0 xs NaN = []"
| "slice0 xs (Integer k) =
     (if k < 0 then take (nat (int (length xs) + k)) xs else take (nat k) xs)"

subsection \<open>Array.prototype.sort with a comparator\<close>

text \<open>
  The sort is stable: an element moves in front of another only if the comparator
  returns a positive number for the pair in their current order. For a consistent
  comparator every stable sort returns the same array; it is written here as the
  insertion of each element, from the back, in front of the first element it does not
  have to follow.
\<close>

fun place :: "('a \<Rightarrow> 'a \<Rightarrow> 'n::{linorder,zero}) \<Rightarrow> 'a \<Rightarrow> 'a list \<Rightarrow> 'a list" where
  "place cmp x [] = [x]"
| "place cmp x (y # ys) = (if cmp x y \<le> 0 then x # y # ys else y # place cmp x ys)"

definition array_sort :: "('a \<Rightarrow> 'a \<Rightarrow> 'n::{linorder,zero}) \<Rightarrow> 'a list \<Rightarrow> 'a list" where
  "array_sort cmp xs = foldr (place cmp) xs []"

section \<open>lib/vectorSearch.ts\<close>

record KeywordEntry =
  keyword :: string
  path :: "string list"
  embedding :: "real list"

text \<open>The three optional fields of the index are \<open>None\<close> when the property is absent.\<close>

record KeywordIndex =
  "keywords" :: "KeywordEntry list"
  embeddingProvider :: "string option"
  embeddingModel :: "string option"
  embeddingDimensions :: "int option"

text \<open>
  Every failure of the program is one constructor, named after what its message reports:
  \<^item> \<open>VectorsLengthMismatch\<close>: \<open>Vectors must have the same length\<close>;
  \<^item> \<open>IndexHasNoEmbeddings\<close>: \<open>Keyword index does not contain embeddings.\<close>;
  \<^item> \<open>DimensionMismatch q i\<close>: \<open>Embedding dimension mismatch: query=q, index=i.\<close>;
  \<^item> \<open>InconsistentIndex\<close>: \<open>Keyword index has inconsistent embedding dimensions.\<close>;
  \<^item> \<open>KeywordsFileNotFound\<close>: \<open>Keywords file not found at ...\<close>;
  \<^item> \<open>KeywordIndexNotFound\<close>: \<open>Keyword index not found.\<close>;
  \<^item> \<open>IndexMissingEmbeddings\<close>: \<open>Keyword index is missing embeddings.\<close>;
  \<^item> \<open>SyntaxError\<close> and \<open>TypeError\<close>: thrown by \<open>JSON.parse\<close>, by the read of a
    property of \<open>null\<close> and by \<open>String\<close>;
  \<^item> \<open>DescriptionRequired\<close>: \<open>Description is required\<close>;
  \<^item> \<open>NoApiKeyConfigured\<close>: \<open>No AI API key is configured\<close>;
  \<^item> \<open>NoApiKeySet\<close>: \<open>No AI API key is set\<close>;
  \<^item> \<open>ProviderKeyMissing\<close>: \<open>EMBEDDING_PROVIDER is set to ... but ... is missing\<close>;
  \<^item> \<open>ProviderFailed\<close> and \<open>QuotaExceeded\<close>: what a remote service can answer instead
    of its result, the second being the status 429 of Gemini.
\<close>

datatype error =
    VectorsLengthMismatch
  | IndexHasNoEmbeddings
  | DimensionMismatch nat int
  | InconsistentIndex
  | KeywordsFileNotFound
  | KeywordIndexNotFound
  | IndexMissingEmbeddings
  | SyntaxError
  | TypeError
  | DescriptionRequired
  | NoApiKeyConfigured
  | NoApiKeySet
  | ProviderKeyMissing
  | ProviderFailed
  | QuotaExceeded

text \<open>
  The loop of \<open>cosineSimilarity\<close>: one pass over both vectors, accumulating the dot
  product and the two squared norms.
\<close>

fun accumulate :: "real list \<Rightarrow> real list \<Rightarrow> real \<times> real \<times> real \<Rightarrow> real \<times> real \<times> real" where
  "accumulate (a # as) (b # bs) (dotProduct, normA, normB) =
     accumulate as bs (dotProduct + a * b, normA + a * a, normB + b * b)"
| "accumulate _ _ acc = acc"

definition cosine :: "real list \<Rightarrow> real list \<Rightarrow> real" where
  "cosine vecA vecB =
     (case accumulate vecA vecB (0, 0, 0) of (dotProduct, normA, normB) \<Rightarrow>
        (let denominator = sqrt normA * sqrt normB
         in if denominator = 0 then 0 else dotProduct / denominator))"

definition cosineSimilarity :: "real list \<Rightarrow> real list \<Rightarrow> error + real" where
  "cosineSimilarity vecA vecB =
     (if length vecA \<noteq> length vecB then Inl VectorsLengthMismatch
      else Inr (cosine vecA vecB))"

text \<open>
  \<open>keywordIndex.keywords.find(entry => entry.embedding && entry.embedding.length > 0)?.embedding\<close>
\<close>

definition firstEmbedding :: "KeywordIndex \<Rightarrow> real list option" where
  "firstEmbedding keywordIndex =
     map_option embedding (find (\<lambda>entry. 0 < length (embedding entry)) (keywords keywordIndex))"

text \<open>
  \<open>keywordIndex.embeddingDimensions || (firstEmbedding ? firstEmbedding.length : 0)\<close>:
  a declared dimension of 0 is falsy and gives way to the inferred one.
\<close>

definition expectedDimensions :: "KeywordIndex \<Rightarrow> int" where
  "expectedDimensions keywordIndex =
     (let inferred = (case firstEmbedding keywordIndex of Some first \<Rightarrow> int (length first) | None \<Rightarrow> 0)
      in case embeddingDimensions keywordIndex of
           Some declared \<Rightarrow> if declared \<noteq> 0 then declared else inferred
         | None \<Rightarrow> inferred)"

text \<open>The \<open>map\<close> that pairs every entry with its similarity; the first throw ends it.\<close>

fun similarities :: "real list \<Rightarrow> KeywordEntry list \<Rightarrow> error + (KeywordEntry \<times> real) list" where
  "similarities queryEmbedding [] = Inr []"
| "similarities queryEmbedding (entry # rest) =
     (case cosineSimilarity queryEmbedding (embedding entry) of
        Inl e \<Rightarrow> Inl e
      | Inr similarity \<Rightarrow>
          (case similarities queryEmbedding rest of
             Inl e \<Rightarrow> Inl e
           | Inr others \<Rightarrow> Inr ((entry, similarity) # others)))"

definition findTopSimilar :: "real list \<Rightarrow> KeywordIndex \<Rightarrow> js_number \<Rightarrow> error + KeywordEntry list" where
  "findTopSimilar queryEmbedding keywordIndex topN =
     (case firstEmbedding keywordIndex of
        None \<Rightarrow> Inl IndexHasNoEmbeddings
      | Some first \<Rightarrow>
          if expectedDimensions keywordIndex = 0 then Inl IndexHasNoEmbeddings
          else if int (length queryEmbedding) \<noteq> expectedDimensions keywordIndex
            then Inl (DimensionMismatch (length queryEmbedding) (expectedDimensions keywordIndex))
          else if find (\<lambda>entry. length (embedding entry) \<noteq> length first) (keywords keywordIndex) \<noteq> None
            then Inl InconsistentIndex
          else
            (case similarities queryEmbedding (keywords keywordIndex) of
               Inl e \<Rightarrow> Inl e
             | Inr sims \<Rightarrow>
                 Inr (map fst (slice0 (array_sort (\<lambda>a b. snd b - snd a) sims) topN))))"

section \<open>JSON values and the conversions applied to them\<close>

text \<open>
  What \<open>JSON.parse\<close> returns. A number is carried as the text \<open>String\<close> gives for it
  (\<open>12\<close>, \<open>-3\<close>, \<open>0.5\<close>, \<open>1e+21\<close>; both zeros give \<open>0\<close>), which is all the program ever
  asks of a parsed number. An object is the list of its own properties in enumeration
  order, one pair per key.
\<close>

datatype json =
    JNull
  | JBool bool
  | JNumber string
  | JString string
  | JArray "json list"
  | JObject "(string \<times> json) list"

text \<open>ToBoolean, on the values a parsed body can hold.\<close>

fun truthy :: "json \<Rightarrow> bool" where
  "truthy JNull = False"
| "truthy (JBool b) = b"
| "truthy (JNumber text) = (text \<noteq> ''0'')"
| "truthy (JString s) = (s \<noteq> [])"
| "truthy (JArray _) = True"
| "truthy (JObject _) = True"

text \<open>\<open>Array.prototype.join\<close>\<close>

fun join :: "string \<Rightarrow> string list \<Rightarrow> string" where
  "join sep [] = []"
| "join sep [x] = x"
| "join sep (x # y # ys) = x @ sep @ join sep (y # ys)"

text \<open>
  \<open>String(value)\<close>. An array is its elements joined by commas, with \<open>null\<close> elements
  empty. A plain object is \<open>[object Object]\<close>, unless it has an own property
  \<open>toString\<close>: a parsed property is never callable, \<open>valueOf\<close> returns the object
  itself, and the conversion throws a TypeError (\<open>None\<close>).
\<close>

fun String_of :: "json \<Rightarrow> string option" where
  "String_of JNull = Some ''null''"
| "String_of (JBool b) = Some (if b then ''true'' else ''false'')"
| "String_of (JNumber text) = Some text"
| "String_of (JString s) = Some s"
| "String_of (JArray items) =
     map_option (join '','')
       (those (map (\<lambda>item. if item = JNull then Some [] else String_of item) items))"
| "String_of (JObject props) =
     (if ''toString'' \<in> set (map fst props) then None else Some ''[object Object]'')"

text \<open>White space and line terminators, as \<open>trim\<close> and \<open>parseInt\<close> skip them.\<close>

definition isStrWhiteSpace :: "char \<Rightarrow> bool" where
  "isStrWhiteSpace c \<longleftrightarrow>
     c \<in> set [CHR 0x09, CHR 0x0A, CHR 0x0B, CHR 0x0C, CHR 0x0D, CHR 0x20, CHR 0xA0]"

definition trim :: "string \<Rightarrow> string" where
  "trim s = rev (dropWhile isStrWhiteSpace (rev (dropWhile isStrWhiteSpace s)))"

fun startsWith :: "string \<Rightarrow> string \<Rightarrow> bool" where
  "startsWith s [] = True"
| "startsWith [] (p # ps) = False"
| "startsWith (c # cs) (p # ps) = (c = p \<and> startsWith cs ps)"

text \<open>\<open>s.includes(t)\<close>: \<open>t\<close> starts at some position of \<open>s\<close>.\<close>

fun includes_text :: "string \<Rightarrow> string \<Rightarrow> bool" where
  "includes_text [] t = (t = [])"
| "includes_text (c # cs) t = (startsWith (c # cs) t \<or> includes_text cs t)"

text \<open>
  \<open>toLowerCase\<close> on Latin-1: the letters A to Z and the accented capitals (all of
  0xC0 to 0xDE but the multiplication sign) move up by 32.
\<close>

definition lower_char :: "char \<Rightarrow> char" where
  "lower_char c =
     (let n = (of_char c :: nat)
      in if (65 \<le> n \<and> n \<le> 90) \<or> (192 \<le> n \<and> n \<le> 222 \<and> n \<noteq> 215) then char_of (n + 32) else c)"

definition toLowerCase :: "string \<Rightarrow> string" where
  "toLowerCase s = map lower_char s"

text \<open>
  \<open>s.split(re)\<close> for a regular expression that matches exactly one character of a
  class: every such character ends a segment, and the empty string gives one empty
  segment.
\<close>

fun split_each :: "(char \<Rightarrow> bool) \<Rightarrow> string \<Rightarrow> string list" where
  "split_each sep [] = [[]]"
| "split_each sep (c # cs) =
     (if sep c then [] # split_each sep cs
      else (case split_each sep cs of
              seg # segs \<Rightarrow> (c # seg) # segs
            | [] \<Rightarrow> [[c]]))"

text \<open>
  \<open>s.split(re)\<close> for a regular expression that matches a longest run of characters of a
  class (\<open>[...]+\<close>): a whole run ends a segment.
\<close>

function split_runs :: "(char \<Rightarrow> bool) \<Rightarrow> string \<Rightarrow> string list" where
  "split_runs sep [] = [[]]"
| "split_runs sep (c # cs) =
     (if sep c then [] # split_runs sep (dropWhile sep cs)
      else (case split_runs sep cs of
              seg # segs \<Rightarrow> (c # seg) # segs
            | [] \<Rightarrow> [[c]]))"
  by pat_completeness auto
termination
  by (relation "measure (\<lambda>(sep, s). length s)") (auto simp: length_dropWhile_le less_Suc_eq_le)

text \<open>
  \<open>parseInt(text)\<close> without a radix: leading white space is skipped, then a sign, then
  \<open>0x\<close> or \<open>0X\<close> selects base 16; the longest run of digits of the base is the value, and
  no digit at all is NaN.
\<close>

definition digitValue :: "char \<Rightarrow> nat" where
  "digitValue c =
     (let n = (of_char c :: nat)
      in if 48 \<le> n \<and> n \<le> 57 then n - 48
         else if 97 \<le> n \<and> n \<le> 122 then n - 87
         else if 65 \<le> n \<and> n \<le> 90 then n - 55
         else 36)"

definition parseInt :: "string \<Rightarrow> js_number" where
  "parseInt inputString =
     (let S = dropWhile isStrWhiteSpace inputString;
          negative = startsWith S ''-'';
          S1 = (if startsWith S ''-'' \<or> startsWith S ''+'' then drop 1 S else S);
          hex = (startsWith S1 ''0x'' \<or> startsWith S1 ''0X'');
          R = (if hex then 16 else 10);
          S2 = (if hex then drop 2 S1 else S1);
          Z = takeWhile (\<lambda>c. digitValue c < R) S2;
          mathInt = foldl (\<lambda>value c. value * R + digitValue c) 0 Z
      in if Z = [] then NaN
         else Integer (if negative then - int mathInt else int mathInt))"

text \<open>
  The text of an integer: \<open>String(n)\<close> for a whole number \<open>n\<close> below \<open>10^21\<close> in
  magnitude, the plain decimal digits with a minus sign for a negative one.
\<close>

fun digits :: "nat \<Rightarrow> string" where
  "digits n = (if n < 10 then [char_of (48 + n)] else digits (n div 10) @ [char_of (48 + n mod 10)])"

declare digits.simps [simp del]

definition Number_toString :: "int \<Rightarrow> string" where
  "Number_toString n = (if n < 0 then CHR ''-'' # digits (nat (- n)) else digits (nat n))"

section \<open>lib/validators.ts\<close>

definition validateKeywords :: "string list \<Rightarrow> string set \<Rightarrow> string list" where
  "validateKeywords candidateKeywords allowedKeywords =
     filter (\<lambda>keyword. keyword \<in> allowedKeywords) candidateKeywords"

definition getAllowedKeywordsSet :: "KeywordIndex \<Rightarrow> string set" where
  "getAllowedKeywordsSet keywordIndex = set (map keyword (keywords keywordIndex))"

text \<open>
  \<open>items.map((item) => String(item).trim()).filter(Boolean)\<close>, with the throw of
  \<open>String\<close> as \<open>Inl\<close>.
\<close>

definition stringified :: "json list \<Rightarrow> error + string list" where
  "stringified items =
     (case those (map String_of items) of
        None \<Rightarrow> Inl TypeError
      | Some texts \<Rightarrow> Inr (filter (\<lambda>s. s \<noteq> []) (map trim texts)))"

text \<open>
  The \<open>try\<close> block of \<open>extractKeywordsFromLLMResponse\<close>: \<open>Inr (Some r)\<close> when it returns
  \<open>r\<close>, \<open>Inr None\<close> when it runs to its end without returning, \<open>Inl\<close> when it throws:
  the SyntaxError of \<open>JSON.parse\<close>, the TypeError of reading a property of \<open>null\<close>, or
  the TypeError of \<open>String\<close>. \<open>JSON.parse\<close> is the platform's and is a parameter.
\<close>

definition extract_try :: "(string \<Rightarrow> json option) \<Rightarrow> string \<Rightarrow> error + string list option" where
  "extract_try JSON_parse response =
     (case JSON_parse response of
        None \<Rightarrow> Inl SyntaxError
      | Some parsed \<Rightarrow>
          (case parsed of
             JArray items \<Rightarrow> map_sum id Some (stringified items)
           | JNull \<Rightarrow> Inl TypeError
           | JObject props \<Rightarrow>
               (case map_of props ''keywords'' of
                  Some (JArray items) \<Rightarrow> map_sum id Some (stringified items)
                | _ \<Rightarrow> Inr None)
           | _ \<Rightarrow> Inr None))"

definition extractKeywordsFromLLMResponse :: "(string \<Rightarrow> json option) \<Rightarrow> string \<Rightarrow> string list" where
  "extractKeywordsFromLLMResponse JSON_parse response =
     (case extract_try JSON_parse response of
        Inr (Some result) \<Rightarrow> result
      | _ \<Rightarrow>
          (let lines = split_each (\<lambda>c. c = CHR '','' \<or> c = CHR 0x0A) response
           in filter (\<lambda>line. 0 < length line \<and> \<not> startsWith line ''['' \<and> \<not> startsWith line ''{'')
                (map trim lines)))"

section \<open>lib/config.ts\<close>

text \<open>
  An API key that is not set is the empty string. \<open>shortlistSize\<close> is the \<open>parseInt\<close> of
  an environment variable; the two target counts are 10 and 15 in the source.
\<close>

record config =
  openaiApiKey :: string
  geminiApiKey :: string
  openrouterApiKey :: string
  shortlistSize :: js_number
  targetKeywordCount_min :: nat
  targetKeywordCount_max :: nat

section \<open>lib/embeddings.ts\<close>

datatype provider = OpenAI | Gemini | OpenRouter

text \<open>
  What lies outside the program: the two remote services, each of which may fail, and
  the platform functions \<open>JSON.parse\<close> (\<open>None\<close> for a SyntaxError) and
  \<open>String.prototype.localeCompare\<close>. The chat service is given the two parts of the
  prompt that vary, the description and the shortlist text, and answers with the content
  of the first choice, the empty string when there is none.
\<close>

record environment =
  JSON_parse :: "string \<Rightarrow> json option"
  localeCompare :: "string \<Rightarrow> string \<Rightarrow> int"
  embeddingService :: "provider \<Rightarrow> string \<Rightarrow> error + real list"
  chatService :: "provider \<Rightarrow> string \<Rightarrow> string \<Rightarrow> error + string"

text \<open>\<open>config.embeddingProvider\<close> is not a property of the configuration, so it is undefined.\<close>

definition embedText :: "environment \<Rightarrow> config \<Rightarrow> string \<Rightarrow> error + real list" where
  "embedText env cfg text =
     (if openaiApiKey cfg = [] \<and> geminiApiKey cfg = [] then Inl NoApiKeySet
      else
        (let provider = (if geminiApiKey cfg \<noteq> [] \<and> openaiApiKey cfg = [] then Gemini else OpenAI)
         in if provider = Gemini
            then (if geminiApiKey cfg = [] then Inl ProviderKeyMissing
                  else embeddingService env Gemini text)
            else (if openaiApiKey cfg = [] then Inl ProviderKeyMissing
                  else embeddingService env OpenAI text)))"

section \<open>app/api/match/route.ts\<close>

subsection \<open>Loading the keyword index\<close>

text \<open>
  A file of the data directory is missing, or holds text that \<open>JSON.parse\<close> rejects, or
  holds a value of the type the program casts it to.
\<close>

datatype 'a stored = Missing | Malformed | Content 'a

record files =
  keywordIndexFile :: "KeywordIndex stored"
  keywordsFile :: "(string \<times> string list) list stored"

definition buildKeywordIndexFromKeywords :: "files \<Rightarrow> error + KeywordIndex" where
  "buildKeywordIndexFromKeywords fs =
     (case keywordsFile fs of
        Missing \<Rightarrow> Inl KeywordsFileNotFound
      | Malformed \<Rightarrow> Inl SyntaxError
      | Content keywordsData \<Rightarrow>
          Inr \<lparr> keywords = map (\<lambda>(k, p). \<lparr> keyword = k, path = p, embedding = [] \<rparr>) keywordsData,
                embeddingProvider = None, embeddingModel = None, embeddingDimensions = None \<rparr>)"

text \<open>
  The module variable \<open>keywordIndexCache\<close> is passed in and returned. A persisted index
  is stored in the cache before its embeddings are checked.
\<close>

definition loadKeywordIndex ::
  "config \<Rightarrow> files \<Rightarrow> KeywordIndex option \<Rightarrow> (error + KeywordIndex) \<times> KeywordIndex option" where
  "loadKeywordIndex cfg fs keywordIndexCache =
     (case keywordIndexCache of
        Some cached \<Rightarrow> (Inr cached, keywordIndexCache)
      | None \<Rightarrow>
          (case keywordIndexFile fs of
             Missing \<Rightarrow>
               if openaiApiKey cfg = []
               then (case buildKeywordIndexFromKeywords fs of
                       Inl e \<Rightarrow> (Inl e, None)
                     | Inr built \<Rightarrow> (Inr built, Some built))
               else (Inl KeywordIndexNotFound, None)
           | Malformed \<Rightarrow> (Inl SyntaxError, None)
           | Content loaded \<Rightarrow>
               if (openaiApiKey cfg \<noteq> [] \<or> geminiApiKey cfg \<noteq> [])
                  \<and> list_ex (\<lambda>entry. length (embedding entry) = 0) (keywords loaded)
               then (Inl IndexMissingEmbeddings, Some loaded)
               else (Inr loaded, Some loaded)))"

subsection \<open>The request and the response\<close>

text \<open>The four properties read from the request body; \<open>None\<close> is undefined.\<close>

record request_body =
  description :: "json option"
  useLLM :: "json option"
  keywordCount :: "json option"
  llmProvider :: "json option"

datatype matching_method = lexical | direct | llm

record match_result =
  result_keywords :: "string list"
  result_shortlistSize :: nat
  result_validatedCount :: nat
  result_method :: matching_method

text \<open>A response is an error with its HTTP status, or the result of the match.\<close>

datatype response = Failed nat error | Matched match_result

subsection \<open>The lexical ranking\<close>

text \<open>
  \<open>keywordLower.split(/[^a-z0-9]+/g).filter(Boolean)\<close>: the runs of lower-case letters
  and digits of the keyword.
\<close>

definition keywordWords :: "string \<Rightarrow> string list" where
  "keywordWords keywordLower =
     filter (\<lambda>word. word \<noteq> [])
       (split_runs (\<lambda>c. c \<notin> set ''abcdefghijklmnopqrstuvwxyz0123456789'') keywordLower)"

text \<open>The number of those words, longer than 2, that occur in the description.\<close>

definition overlap :: "string \<Rightarrow> string \<Rightarrow> nat" where
  "overlap normalizedDescription keywordLower =
     length (filter (\<lambda>word. 2 < length word \<and> includes_text normalizedDescription word)
               (keywordWords keywordLower))"

text \<open>The score of one keyword against the lower-cased description.\<close>

definition lexicalScore :: "string \<Rightarrow> string \<Rightarrow> nat" where
  "lexicalScore normalizedDescription kw =
     (let keywordLower = toLowerCase kw;
          score = (if includes_text normalizedDescription keywordLower then 3 else 0)
      in score + overlap normalizedDescription keywordLower)"

text \<open>\<open>b.score - a.score || a.keyword.localeCompare(b.keyword)\<close>\<close>

definition byScoreThenKeyword ::
  "(string \<Rightarrow> string \<Rightarrow> int) \<Rightarrow> string \<times> nat \<Rightarrow> string \<times> nat \<Rightarrow> int" where
  "byScoreThenKeyword compare a b =
     (if int (snd b) - int (snd a) \<noteq> 0 then int (snd b) - int (snd a)
      else compare (fst a) (fst b))"

definition keywordsWithScore ::
  "environment \<Rightarrow> string \<Rightarrow> KeywordIndex \<Rightarrow> (string \<times> nat) list" where
  "keywordsWithScore env text keywordIndex =
     (let normalizedDescription = toLowerCase text
      in array_sort (byScoreThenKeyword (localeCompare env))
           (filter (\<lambda>item. 0 < snd item)
              (map (\<lambda>entry. (keyword entry, lexicalScore normalizedDescription (keyword entry)))
                 (keywords keywordIndex))))"

subsection \<open>The handler\<close>

text \<open>
  \<open>keywordCount ? Math.min(Math.max(parseInt(String(keywordCount)), 1), 50)
  : config.targetKeywordCount.max\<close>, which the lexical and the direct branch both
  evaluate.
\<close>

definition requestedCount :: "config \<Rightarrow> json option \<Rightarrow> error + js_number" where
  "requestedCount cfg requested =
     (case requested of
        None \<Rightarrow> Inr (Integer (int (targetKeywordCount_max cfg)))
      | Some v \<Rightarrow>
          if truthy v
          then (case String_of v of
                  None \<Rightarrow> Inl TypeError
                | Some text \<Rightarrow> Inr (Math_min (Math_max (parseInt text) (Integer 1)) (Integer 50)))
          else Inr (Integer (int (targetKeywordCount_max cfg))))"

text \<open>The provider of the refinement call: the requested one if its key is set, else the first with a key.\<close>

definition selectedProvider :: "config \<Rightarrow> json option \<Rightarrow> provider option" where
  "selectedProvider cfg wanted =
     (if wanted = Some (JString ''openrouter'') \<and> openrouterApiKey cfg \<noteq> [] then Some OpenRouter
      else if wanted = Some (JString ''gemini'') \<and> geminiApiKey cfg \<noteq> [] then Some Gemini
      else if wanted = Some (JString ''openai'') \<and> openaiApiKey cfg \<noteq> [] then Some OpenAI
      else if openrouterApiKey cfg \<noteq> [] then Some OpenRouter
      else if geminiApiKey cfg \<noteq> [] then Some Gemini
      else if openaiApiKey cfg \<noteq> [] then Some OpenAI
      else None)"

text \<open>
  The keywords read from the provider's content. The first value of an object that is
  an array is taken when the object has no \<open>keywords\<close> array; whatever throws inside
  the \<open>try\<close> block (the SyntaxError, or the property read on \<open>null\<close>) hands the
  content to \<open>extractKeywordsFromLLMResponse\<close>.
\<close>

definition isArray :: "json \<Rightarrow> bool" where
  "isArray v = (case v of JArray _ \<Rightarrow> True | _ \<Rightarrow> False)"

definition selectedKeywords :: "environment \<Rightarrow> string \<Rightarrow> json list" where
  "selectedKeywords env llmContent =
     (case JSON_parse env llmContent of
        None \<Rightarrow> map JString (extractKeywordsFromLLMResponse (JSON_parse env) llmContent)
      | Some parsed \<Rightarrow>
          (case parsed of
             JArray items \<Rightarrow> items
           | JNull \<Rightarrow> map JString (extractKeywordsFromLLMResponse (JSON_parse env) llmContent)
           | JObject props \<Rightarrow>
               (case map_of props ''keywords'' of
                  Some (JArray items) \<Rightarrow> items
                | _ \<Rightarrow>
                    (case find isArray (map snd props) of
                       Some (JArray items) \<Rightarrow> items
                     | _ \<Rightarrow> []))
           | _ \<Rightarrow> []))"

text \<open>
  The allowed set holds strings only, so \<open>allowedKeywords.has\<close> is false for every
  element that is not a string: the candidates that can pass are the string elements.
\<close>

fun strings_of :: "json list \<Rightarrow> string list" where
  "strings_of [] = []"
| "strings_of (JString s # rest) = s # strings_of rest"
| "strings_of (_ # rest) = strings_of rest"

text \<open>The branch taken without any embedding key and without refinement.\<close>

definition lexicalBranch ::
  "environment \<Rightarrow> config \<Rightarrow> request_body \<Rightarrow> string \<Rightarrow> KeywordIndex \<Rightarrow> response" where
  "lexicalBranch env cfg body text keywordIndex =
     (let allowedKeywords = getAllowedKeywordsSet keywordIndex;
          ranked = keywordsWithScore env text keywordIndex
      in case requestedCount cfg (keywordCount body) of
           Inl e \<Rightarrow> Failed 500 e
         | Inr cnt \<Rightarrow>
             (let directKeywords =
                    filter (\<lambda>k. k \<in> allowedKeywords) (slice0 (map fst ranked) cnt)
              in Matched \<lparr> result_keywords = directKeywords,
                           result_shortlistSize = length (keywords keywordIndex),
                           result_validatedCount = length directKeywords,
                           result_method = lexical \<rparr>))"

text \<open>Step 3: the shortlist cut to the requested count.\<close>

definition directBranch ::
  "config \<Rightarrow> request_body \<Rightarrow> KeywordIndex \<Rightarrow> KeywordEntry list \<Rightarrow> response" where
  "directBranch cfg body keywordIndex shortlist =
     (let allowedKeywords = getAllowedKeywordsSet keywordIndex;
          shortlistKeywords = map keyword shortlist
      in case requestedCount cfg (keywordCount body) of
           Inl e \<Rightarrow> Failed 500 e
         | Inr cnt \<Rightarrow>
             (let directKeywords =
                    filter (\<lambda>k. k \<in> allowedKeywords) (slice0 shortlistKeywords cnt)
              in Matched \<lparr> result_keywords = directKeywords,
                           result_shortlistSize = length shortlist,
                           result_validatedCount = length directKeywords,
                           result_method = direct \<rparr>))"

text \<open>
  Step 4: the refinement call, the validation of its answer and the fallback. A failed
  call is a 500, except the quota response of Gemini, which is passed on as a 429.
\<close>

definition llmBranch ::
  "environment \<Rightarrow> config \<Rightarrow> request_body \<Rightarrow> string \<Rightarrow> KeywordIndex \<Rightarrow> KeywordEntry list \<Rightarrow> response" where
  "llmBranch env cfg body text keywordIndex shortlist =
     (let allowedKeywords = getAllowedKeywordsSet keywordIndex;
          shortlistKeywords = map keyword shortlist;
          shortlistText = join '', '' shortlistKeywords;
          answer = (case selectedProvider cfg (llmProvider body) of
                      None \<Rightarrow> Inr []
                    | Some p \<Rightarrow> chatService env p text shortlistText)
      in case answer of
           Inl e \<Rightarrow>
             Failed (if selectedProvider cfg (llmProvider body) = Some Gemini \<and> e = QuotaExceeded
                     then 429 else 500) e
         | Inr llmContent \<Rightarrow>
             (let validatedKeywords =
                    validateKeywords (strings_of (selectedKeywords env llmContent)) allowedKeywords;
                  finalKeywords =
                    (if length validatedKeywords < targetKeywordCount_min cfg
                     then filter (\<lambda>k. k \<in> allowedKeywords)
                            (slice0 shortlistKeywords (Integer (int (targetKeywordCount_max cfg))))
                     else slice0 validatedKeywords (Integer (int (targetKeywordCount_max cfg))))
              in Matched \<lparr> result_keywords = finalKeywords,
                           result_shortlistSize = length shortlist,
                           result_validatedCount = length validatedKeywords,
                           result_method = llm \<rparr>))"

text \<open>\<open>useLLM\<close> defaults to \<open>false\<close> and is used for its truth value.\<close>

definition wantsLLM :: "request_body \<Rightarrow> bool" where
  "wantsLLM body = (case useLLM body of None \<Rightarrow> False | Some v \<Rightarrow> truthy v)"

text \<open>
  The handler, from the parsed body to the response, with the cache before and after.
  Every exception is caught at the end of the handler and answered with status 500.
  The usage counter that the refinement call updates is no part of the response and is
  left out, as is the search for the project root: \<open>files\<close> holds what is found at the
  two configured paths.
\<close>

definition POST ::
  "environment \<Rightarrow> config \<Rightarrow> files \<Rightarrow> request_body \<Rightarrow> KeywordIndex option
     \<Rightarrow> response \<times> KeywordIndex option" where
  "POST env cfg fs body keywordIndexCache =
     (case description body of
        Some (JString text) \<Rightarrow>
          if text = [] then (Failed 400 DescriptionRequired, keywordIndexCache)
          else
            (case loadKeywordIndex cfg fs keywordIndexCache of
               (Inl e, cache) \<Rightarrow> (Failed 500 e, cache)
             | (Inr keywordIndex, cache) \<Rightarrow>
                 if wantsLLM body \<and> openaiApiKey cfg = [] \<and> geminiApiKey cfg = []
                      \<and> openrouterApiKey cfg = []
                 then (Failed 500 NoApiKeyConfigured, cache)
                 else if openaiApiKey cfg = [] \<and> geminiApiKey cfg = [] \<and> \<not> wantsLLM body
                 then (lexicalBranch env cfg body text keywordIndex, cache)
                 else
                   (case embedText env cfg text of
                      Inl e \<Rightarrow> (Failed 500 e, cache)
                    | Inr descriptionEmbedding \<Rightarrow>
                        (case findTopSimilar descriptionEmbedding keywordIndex (shortlistSize cfg) of
                           Inl e \<Rightarrow> (Failed 500 e, cache)
                         | Inr shortlist \<Rightarrow>
                             if \<not> wantsLLM body
                             then (directBranch cfg body keywordIndex shortlist, cache)
                             else (llmBranch env cfg body text keywordIndex shortlist, cache))))
      | _ \<Rightarrow> (Failed 400 DescriptionRequired, keywordIndexCache))"

section \<open>A small taxonomy to run the matcher on\<close>

text \<open>
  Two keywords with one-dimensional embeddings, the files that hold them, and services
  that answer every request the same way: the embedding service with the vector \<open>[1]\<close>,
  the chat service with a text that names one keyword of the taxonomy and one that is
  not. The text is not JSON, so \<open>JSON.parse\<close> rejects it. Strings are collated by code
  unit.
\<close>

definition taxonomy :: KeywordIndex where
  "taxonomy =
     \<lparr> keywords = [\<lparr> keyword = ''war'', path = [''Themes''], embedding = [1] \<rparr>,
                   \<lparr> keyword = ''love'', path = [''Themes''], embedding = [1] \<rparr>],
       embeddingProvider = None, embeddingModel = None, embeddingDimensions = None \<rparr>"

definition byCodeUnit :: "string \<Rightarrow> string \<Rightarrow> int" where
  "byCodeUnit a b = (if a < b then - 1 else if a = b then 0 else 1)"

definition services :: environment where
  "services =
     \<lparr> JSON_parse = (\<lambda>text. None),
       localeCompare = byCodeUnit,
       embeddingService = (\<lambda>p text. Inr [1]),
       chatService = (\<lambda>p text shortlistText. Inr ''war, peace'') \<rparr>"

definition withOpenAI :: config where
  "withOpenAI =
     \<lparr> openaiApiKey = ''sk'', geminiApiKey = [], openrouterApiKey = [],
       shortlistSize = Integer 50, targetKeywordCount_min = 10, targetKeywordCount_max = 15 \<rparr>"

definition withoutKeys :: config where
  "withoutKeys =
     \<lparr> openaiApiKey = [], geminiApiKey = [], openrouterApiKey = [],
       shortlistSize = Integer 50, targetKeywordCount_min = 10, targetKeywordCount_max = 15 \<rparr>"

definition built :: files where
  "built =
     \<lparr> keywordIndexFile = Content taxonomy,
       keywordsFile = Content [(''war'', [''Themes'']), (''love'', [''Themes''])] \<rparr>"

definition unbuilt :: files where
  "unbuilt =
     \<lparr> keywordIndexFile = Missing,
       keywordsFile = Content [(''war'', [''Themes'']), (''love'', [''Themes''])] \<rparr>"

definition request :: request_body where
  "request =
     \<lparr> description = Some (JString ''a war film''), useLLM = None, keywordCount = None,
       llmProvider = None \<rparr>"

definition onlyOpenRouter :: config where
  "onlyOpenRouter =
     \<lparr> openaiApiKey = [], geminiApiKey = [], openrouterApiKey = ''or'',
       shortlistSize = Integer 50, targetKeywordCount_min = 10, targetKeywordCount_max = 15 \<rparr>"

text \<open>A description and three keywords without embeddings, for the lexical ranking.\<close>

definition pitch :: string where
  "pitch = ''An AI robot falls in love during a war in space''"

definition lexicon :: KeywordIndex where
  "lexicon =
     \<lparr> keywords = [\<lparr> keyword = ''AI'', path = [''Themes''], embedding = [] \<rparr>,
                   \<lparr> keyword = ''War'', path = [''Themes''], embedding = [] \<rparr>,
                   \<lparr> keyword = ''Space war robot love story'', path = [''Plots''], embedding = [] \<rparr>,
                   \<lparr> keyword = ''Heist'', path = [''Plots''], embedding = [] \<rparr>],
       embeddingProvider = None, embeddingModel = None, embeddingDimensions = None \<rparr>"

text \<open>\<open>JSON.parse\<close> on the three JSON texts used below; every other text used is not JSON.\<close>

definition parse_sample :: "string \<Rightarrow> json option" where
  \<open>parse_sample text =
     (if text = ''["a","b"]'' then Some (JArray [JString ''a'', JString ''b''])
      else if text = ''{"keywords":["a","b"]}''
        then Some (JObject [(''keywords'', JArray [JString ''a'', JString ''b''])])
      else if text = ''[{"toString":1},"x"]''
        then Some (JArray [JObject [(''toString'', JNumber ''1'')], JString ''x''])
      else None)\<close>

section \<open>cosineSimilarity over the reals\<close>

text \<open>
  With real numbers for the components, \<open>cosineSimilarity\<close> throws on vectors of unequal
  length, and on vectors of equal length it is the dot product over the product of the
  Euclidean norms, or 0 when that product is 0; a vector against itself gives 1, or 0 if
  all its components are 0. These are facts of the arithmetic without rounding: the
  squares of doubles can underflow to 0 or overflow, which real numbers do not show.
\<close>

lemma accumulate_sums:
  "length vecA = length vecB \<Longrightarrow>
     accumulate vecA vecB (dotProduct, normA, normB) =
       (dotProduct + (\<Sum>(a, b)\<leftarrow>zip vecA vecB. a * b),
        normA + (\<Sum>a\<leftarrow>vecA. a * a),
        normB + (\<Sum>b\<leftarrow>vecB. b * b))"
  by (induction vecA vecB arbitrary: dotProduct normA normB rule: list_induct2)
    (simp_all add: algebra_simps)

lemma cosineSimilarity_unequal_length:
  "length vecA \<noteq> length vecB \<Longrightarrow> cosineSimilarity vecA vecB = Inl VectorsLengthMismatch"
  by (simp add: cosineSimilarity_def)

lemma cosineSimilarity_formula:
  assumes "length vecA = length vecB"
  shows "cosineSimilarity vecA vecB =
           Inr (if sqrt (\<Sum>a\<leftarrow>vecA. a * a) * sqrt (\<Sum>b\<leftarrow>vecB. b * b) = 0 then 0
                else (\<Sum>(a, b)\<leftarrow>zip vecA vecB. a * b)
                       / (sqrt (\<Sum>a\<leftarrow>vecA. a * a) * sqrt (\<Sum>b\<leftarrow>vecB. b * b)))"
  using assms by (simp add: cosineSimilarity_def cosine_def accumulate_sums)

lemma sum_squares_zero: "(\<Sum>a\<leftarrow>v. a * a) = 0 \<longleftrightarrow> (\<forall>a\<in>set v. a = (0 :: real))"
proof (induction v)
  case Nil
  then show ?case by simp
next
  case (Cons a v)
  have "0 \<le> (\<Sum>a\<leftarrow>v. a * a)" by (induction v) simp_all
  then show ?case using Cons by (auto simp: add_nonneg_eq_0_iff)
qed

lemma cosineSimilarity_self:
  "cosineSimilarity v v = Inr (if \<forall>a\<in>set v. a = 0 then 0 else 1)"
proof -
  have diag: "(\<Sum>(a, b)\<leftarrow>zip v v. a * b) = (\<Sum>a\<leftarrow>v. a * a)"
    by (induction v) simp_all
  have "0 \<le> (\<Sum>a\<leftarrow>v. a * a)" by (induction v) simp_all
  then have "sqrt (\<Sum>a\<leftarrow>v. a * a) * sqrt (\<Sum>a\<leftarrow>v. a * a) = (\<Sum>a\<leftarrow>v. a * a)"
    by simp
  then show ?thesis
    using sum_squares_zero [of v] by (simp add: cosineSimilarity_formula diag)
qed

section \<open>The checks of findTopSimilar\<close>

lemma firstEmbedding_None: "firstEmbedding idx = None \<longleftrightarrow> (\<forall>e\<in>set (keywords idx). embedding e = [])"
  by (auto simp: firstEmbedding_def find_None_iff)

lemma firstEmbedding_Some:
  "firstEmbedding idx = Some first \<longleftrightarrow>
     (\<exists>f. find (\<lambda>e. embedding e \<noteq> []) (keywords idx) = Some f \<and> first = embedding f)"
  by (auto simp: firstEmbedding_def)

lemma firstEmbedding_nonempty: "firstEmbedding idx = Some first \<Longrightarrow> first \<noteq> [] \<and> first \<in> embedding ` set (keywords idx)"
  by (auto simp: firstEmbedding_def find_Some_iff)

lemma expectedDimensions_nonzero: "firstEmbedding idx = Some first \<Longrightarrow> expectedDimensions idx \<noteq> 0"
  by (auto simp: expectedDimensions_def Let_def dest: firstEmbedding_nonempty split: option.splits)

text \<open>
  Claim C2, as the code has it. \<open>findTopSimilar\<close> checks in this order, each check with
  its own error. (1) An index without any non-empty embedding fails with
  \<open>IndexHasNoEmbeddings\<close>. (2) Otherwise the expected dimension is the declared
  \<open>embeddingDimensions\<close> if it is present and not 0, else the length of the first
  non-empty embedding; a query of another length fails with \<open>DimensionMismatch\<close>,
  which carries both lengths. (3) Otherwise, if the embedding of some entry differs in
  length from the first non-empty embedding, the call fails with \<open>InconsistentIndex\<close>.
\<close>

theorem findTopSimilar_checks:
  "((\<forall>e\<in>set (keywords idx). embedding e = []) \<longrightarrow>
      findTopSimilar q idx n = Inl IndexHasNoEmbeddings) \<and>
   (\<forall>f expected.
      find (\<lambda>e. embedding e \<noteq> []) (keywords idx) = Some f \<and>
      expected = (case embeddingDimensions idx of
                    Some declared \<Rightarrow> if declared \<noteq> 0 then declared else int (length (embedding f))
                  | None \<Rightarrow> int (length (embedding f))) \<longrightarrow>
      (int (length q) \<noteq> expected \<longrightarrow>
         findTopSimilar q idx n = Inl (DimensionMismatch (length q) expected)) \<and>
      (int (length q) = expected \<and>
       (\<exists>e\<in>set (keywords idx). length (embedding e) \<noteq> length (embedding f)) \<longrightarrow>
         findTopSimilar q idx n = Inl InconsistentIndex))"
proof (intro conjI allI impI)
  assume "\<forall>e\<in>set (keywords idx). embedding e = []"
  then have "firstEmbedding idx = None" by (simp add: firstEmbedding_None)
  then show "findTopSimilar q idx n = Inl IndexHasNoEmbeddings"
    by (simp add: findTopSimilar_def)
next
  fix f expected
  assume a: "find (\<lambda>e. embedding e \<noteq> []) (keywords idx) = Some f \<and>
      expected = (case embeddingDimensions idx of
                    Some declared \<Rightarrow> if declared \<noteq> 0 then declared else int (length (embedding f))
                  | None \<Rightarrow> int (length (embedding f)))"
  then have fe: "firstEmbedding idx = Some (embedding f)" by (simp add: firstEmbedding_Some)
  with a have ex: "expectedDimensions idx = expected"
    by (simp add: expectedDimensions_def Let_def split: option.splits)
  have nz: "expectedDimensions idx \<noteq> 0" using fe by (rule expectedDimensions_nonzero)
  {
    assume "int (length q) \<noteq> expected"
    then show "findTopSimilar q idx n = Inl (DimensionMismatch (length q) expected)"
      using fe ex nz by (simp add: findTopSimilar_def)
  }
  {
    assume b: "int (length q) = expected \<and>
       (\<exists>e\<in>set (keywords idx). length (embedding e) \<noteq> length (embedding f))"
    then have "find (\<lambda>entry. length (embedding entry) \<noteq> length (embedding f)) (keywords idx) \<noteq> None"
      by (auto simp: find_None_iff)
    then show "findTopSimilar q idx n = Inl InconsistentIndex"
      using fe ex nz b by (simp add: findTopSimilar_def)
  }
qed

theorem findTopSimilar_checks_witness:
  "findTopSimilar [1, 0]
     \<lparr> keywords = [\<lparr> keyword = ''war'', path = [], embedding = [] \<rparr>],
       embeddingProvider = None, embeddingModel = None, embeddingDimensions = None \<rparr>
     (Integer 5) = Inl IndexHasNoEmbeddings
   \<and> findTopSimilar [1, 0]
     \<lparr> keywords = [\<lparr> keyword = ''war'', path = [], embedding = [1, 0, 0] \<rparr>],
       embeddingProvider = None, embeddingModel = None, embeddingDimensions = None \<rparr>
     (Integer 5) = Inl (DimensionMismatch 2 3)
   \<and> findTopSimilar [1, 0, 0]
     \<lparr> keywords = [\<lparr> keyword = ''war'', path = [], embedding = [1, 0, 0] \<rparr>,
                   \<lparr> keyword = ''love'', path = [], embedding = [0, 1] \<rparr>],
       embeddingProvider = None, embeddingModel = None, embeddingDimensions = Some 3 \<rparr>
     (Integer 5) = Inl InconsistentIndex"
  using
    findTopSimilar_checks [of
      "\<lparr> keywords = [\<lparr> keyword = ''war'', path = [], embedding = [] \<rparr>],
         embeddingProvider = None, embeddingModel = None, embeddingDimensions = None \<rparr>"
      "[1, 0]" "Integer 5"]
    findTopSimilar_checks [of
      "\<lparr> keywords = [\<lparr> keyword = ''war'', path = [], embedding = [1, 0, 0] \<rparr>],
         embeddingProvider = None, embeddingModel = None, embeddingDimensions = None \<rparr>"
      "[1, 0]" "Integer 5"]
    findTopSimilar_checks [of
      "\<lparr> keywords = [\<lparr> keyword = ''war'', path = [], embedding = [1, 0, 0] \<rparr>,
                     \<lparr> keyword = ''love'', path = [], embedding = [0, 1] \<rparr>],
         embeddingProvider = None, embeddingModel = None, embeddingDimensions = Some 3 \<rparr>"
      "[1, 0, 0]" "Integer 5"]
  by simp

text \<open>
  The third check compares with the first non-empty embedding, not with the expected
  dimension. An index that declares 3 dimensions and whose only entry has 2 passes all
  three checks for a query of length 3; the failure is the one of \<open>cosineSimilarity\<close>.
\<close>

theorem findTopSimilar_declared_dimension_counterexample:
  "embeddingDimensions
     \<lparr> keywords = [\<lparr> keyword = ''war'', path = [], embedding = [1, 0] \<rparr>],
       embeddingProvider = None, embeddingModel = None, embeddingDimensions = Some 3 \<rparr> = Some 3
   \<and> length [1, 0, 0 :: real] = 3
   \<and> length (embedding \<lparr> keyword = ''war'', path = [], embedding = [1, 0] \<rparr>) \<noteq> 3
   \<and> findTopSimilar [1, 0, 0]
        \<lparr> keywords = [\<lparr> keyword = ''war'', path = [], embedding = [1, 0] \<rparr>],
          embeddingProvider = None, embeddingModel = None, embeddingDimensions = Some 3 \<rparr>
        (Integer 5) = Inl VectorsLengthMismatch"
  by (simp add: findTopSimilar_def firstEmbedding_def expectedDimensions_def cosineSimilarity_def)

section \<open>The ranking of findTopSimilar\<close>





lemma mset_array_sort: "mset (array_sort cmp xs) = mset xs"
proof -
  have "mset (place cmp x ys) = add_mset x (mset ys)" for x ys
    by (induction ys) simp_all
  then show ?thesis by (induction xs) (simp_all add: array_sort_def)
qed





section \<open>The handler stays inside the taxonomy\<close>

lemma set_slice0: "set (slice0 xs n) \<subseteq> set xs"
  by (cases n) (auto dest: in_set_takeD)

lemma similarities_entries: "similarities q ks = Inr sims \<Longrightarrow> map fst sims = ks"
  by (induction ks arbitrary: sims) (auto split: sum.splits)

lemma findTopSimilar_subset:
  assumes "findTopSimilar q idx n = Inr shortlist"
  shows "set shortlist \<subseteq> set (keywords idx)"
proof -
  from assms obtain sims where sims: "similarities q (keywords idx) = Inr sims"
    and sl: "shortlist = map fst (slice0 (array_sort (\<lambda>a b. snd b - snd a) sims) n)"
    by (auto simp: findTopSimilar_def split: option.splits if_splits sum.splits)
  have "set (slice0 (array_sort (\<lambda>a b. snd b - snd a) sims) n) \<subseteq> set sims"
    using set_slice0 [of "array_sort (\<lambda>a b. snd b - snd a) sims" n]
      mset_array_sort [of "\<lambda>a b. snd b - snd a" sims]
    by (metis set_mset_mset)
  then have "set shortlist \<subseteq> fst ` set sims" by (auto simp: sl)
  also have "fst ` set sims = set (map fst sims)" by simp
  also have "\<dots> = set (keywords idx)" using sims by (simp add: similarities_entries)
  finally show ?thesis .
qed

lemma shortlist_allowed:
  assumes "findTopSimilar q idx n = Inr shortlist"
  shows "set (map keyword shortlist) \<subseteq> getAllowedKeywordsSet idx"
  using findTopSimilar_subset [OF assms] by (auto simp: getAllowedKeywordsSet_def)

lemma filter_allowed_id:
  "set ks \<subseteq> allowed \<Longrightarrow> filter (\<lambda>k. k \<in> allowed) (slice0 ks n) = slice0 ks n"
  using set_slice0 [of ks n] by (auto simp: filter_id_conv)

lemma lexicalBranch_allowed:
  "lexicalBranch env cfg body text idx = Matched r \<Longrightarrow>
     set (result_keywords r) \<subseteq> getAllowedKeywordsSet idx"
  by (auto simp: lexicalBranch_def Let_def split: sum.splits)

lemma directBranch_allowed:
  "directBranch cfg body idx shortlist = Matched r \<Longrightarrow>
     set (result_keywords r) \<subseteq> getAllowedKeywordsSet idx"
  by (auto simp: directBranch_def Let_def split: sum.splits)

lemma validated_allowed: "set (slice0 (validateKeywords candidates allowed) n) \<subseteq> allowed"
proof -
  have "set (validateKeywords candidates allowed) \<subseteq> allowed"
    by (auto simp: validateKeywords_def)
  with set_slice0 [of "validateKeywords candidates allowed" n] show ?thesis by blast
qed

lemma llmBranch_allowed:
  assumes "llmBranch env cfg body text idx shortlist = Matched r"
  shows "set (result_keywords r) \<subseteq> getAllowedKeywordsSet idx"
proof -
  let ?allowed = "getAllowedKeywordsSet idx"
  let ?limit = "Integer (int (targetKeywordCount_max cfg))"
  from assms obtain llmContent where
    "result_keywords r =
       (if length (validateKeywords (strings_of (selectedKeywords env llmContent)) ?allowed)
             < targetKeywordCount_min cfg
        then filter (\<lambda>k. k \<in> ?allowed) (slice0 (map keyword shortlist) ?limit)
        else slice0 (validateKeywords (strings_of (selectedKeywords env llmContent)) ?allowed) ?limit)"
    by (auto simp: llmBranch_def Let_def split: sum.splits)
  then show ?thesis
    using validated_allowed [of "strings_of (selectedKeywords env llmContent)" ?allowed ?limit]
    by (auto split: if_splits)
qed

text \<open>
  Claim C1. Whatever the request, the configuration, the stored files, the cache and the
  answers of the embedding and the generation provider: if the handler returns a result,
  every keyword of the result is in the allowed set of the index that was loaded. This
  covers the lexical, the direct and the llm branch.
\<close>

theorem POST_keywords_allowed:
  assumes "POST env cfg fs body cache = (Matched r, cache')"
    and "loadKeywordIndex cfg fs cache = (Inr idx, c)"
  shows "set (result_keywords r) \<subseteq> getAllowedKeywordsSet idx"
  using assms
  by (auto simp: POST_def split: option.splits json.splits if_splits sum.splits prod.splits
      dest: lexicalBranch_allowed directBranch_allowed llmBranch_allowed)

section \<open>Which branch the handler takes\<close>

lemma embedText_keys:
  "embedText env cfg text = Inr v \<Longrightarrow> openaiApiKey cfg \<noteq> [] \<or> geminiApiKey cfg \<noteq> []"
  by (auto simp: embedText_def split: if_splits)

lemma POST_lexical:
  assumes "description body = Some (JString text)" and "text \<noteq> []"
    and "loadKeywordIndex cfg fs cache = (Inr idx, cache')"
    and "openaiApiKey cfg = []" and "geminiApiKey cfg = []" and "\<not> wantsLLM body"
  shows "POST env cfg fs body cache = (lexicalBranch env cfg body text idx, cache')"
  using assms by (simp add: POST_def)

lemma POST_shortlisted:
  assumes "description body = Some (JString text)" and "text \<noteq> []"
    and "loadKeywordIndex cfg fs cache = (Inr idx, cache')"
    and "embedText env cfg text = Inr v"
    and "findTopSimilar v idx (shortlistSize cfg) = Inr shortlist"
  shows "POST env cfg fs body cache =
           (if wantsLLM body then llmBranch env cfg body text idx shortlist
            else directBranch cfg body idx shortlist, cache')"
  using assms embedText_keys [OF assms(4)] by (auto simp: POST_def)

lemma digitValue_decimal: "d < 10 \<Longrightarrow> digitValue (char_of (48 + d)) = d"
  by (simp add: digitValue_def)

lemma decimal_char:
  assumes "digitValue c < 10"
  shows "\<not> isStrWhiteSpace c" and "c \<noteq> CHR ''-''" and "c \<noteq> CHR ''+''"
    and "c \<noteq> CHR ''x''" and "c \<noteq> CHR ''X''"
  using assms by (auto simp: isStrWhiteSpace_def digitValue_def)

lemma digits_decimal: "c \<in> set (digits n) \<Longrightarrow> digitValue c < 10"
proof (induction n rule: digits.induct)
  case (1 n)
  then show ?case
    by (subst (asm) (2) digits.simps) (auto simp: digitValue_decimal split: if_splits)
qed

lemma digits_nonempty: "digits n \<noteq> []"
  by (subst digits.simps) simp

lemma digits_value: "foldl (\<lambda>value c. value * 10 + digitValue c) 0 (digits n) = n"
proof (induction n rule: digits.induct)
  case (1 n)
  show ?case
  proof (cases "n < 10")
    case True
    then show ?thesis by (subst digits.simps) (simp add: digitValue_decimal)
  next
    case False
    with 1 show ?thesis by (subst digits.simps) (simp add: digitValue_decimal)
  qed
qed

lemma parseInt_decimal:
  assumes "ds \<noteq> []" and "\<forall>c\<in>set ds. digitValue c < 10"
  shows "parseInt ds = Integer (int (foldl (\<lambda>value c. value * 10 + digitValue c) 0 ds))"
    and "parseInt (CHR ''-'' # ds) = Integer (- int (foldl (\<lambda>value c. value * 10 + digitValue c) 0 ds))"
proof -
  from assms obtain c cs where ds: "ds = c # cs" by (cases ds) auto
  with assms have c: "digitValue c < 10" by simp
  have skip: "dropWhile isStrWhiteSpace ds = ds"
    using decimal_char(1) [OF c] by (simp add: ds)
  have unsigned: "\<not> startsWith ds ''-''" "\<not> startsWith ds ''+''"
    using decimal_char(2,3) [OF c] by (simp_all add: ds)
  have nothex: "\<not> startsWith ds ''0x''" "\<not> startsWith ds ''0X''"
    using assms(2) decimal_char(4,5) by (cases cs; auto simp: ds)+
  have all: "takeWhile (\<lambda>c. digitValue c < 10) ds = ds"
    using assms(2) by simp
  have minus: "\<not> isStrWhiteSpace CHR ''-''" by (simp add: isStrWhiteSpace_def)
  show "parseInt ds = Integer (int (foldl (\<lambda>value c. value * 10 + digitValue c) 0 ds))"
    using assms(1) by (simp add: parseInt_def Let_def skip unsigned nothex all)
  show "parseInt (CHR ''-'' # ds) = Integer (- int (foldl (\<lambda>value c. value * 10 + digitValue c) 0 ds))"
    using assms(1) by (simp add: parseInt_def Let_def minus nothex all)
qed

lemma parseInt_Number_toString: "parseInt (Number_toString n) = Integer n"
  using parseInt_decimal [OF digits_nonempty, of "nat n"] parseInt_decimal [OF digits_nonempty, of "nat (- n)"]
  by (simp add: Number_toString_def digits_decimal digits_value)

lemma Number_toString_nonzero: "n \<noteq> 0 \<Longrightarrow> Number_toString n \<noteq> ''0''"
proof
  assume "n \<noteq> 0" and "Number_toString n = ''0''"
  then have "parseInt ''0'' = Integer n" using parseInt_Number_toString [of n] by simp
  moreover have "parseInt ''0'' = Integer 0"
    by (simp add: parseInt_def isStrWhiteSpace_def digitValue_def)
  ultimately show False using \<open>n \<noteq> 0\<close> by simp
qed

lemma requestedCount_integer:
  "n \<noteq> 0 \<Longrightarrow> requestedCount cfg (Some (JNumber (Number_toString n))) = Inr (Integer (min (max n 1) 50))"
  by (simp add: requestedCount_def Number_toString_nonzero parseInt_Number_toString)

lemma requestedCount_NaN:
  "truthy v \<Longrightarrow> String_of v = Some text \<Longrightarrow> parseInt text = NaN \<Longrightarrow>
     requestedCount cfg (Some v) = Inr NaN"
  by (simp add: requestedCount_def)

section \<open>The matcher on the small taxonomy\<close>

lemma load_built: "loadKeywordIndex withOpenAI built None = (Inr taxonomy, Some taxonomy)"
  by (simp add: loadKeywordIndex_def withOpenAI_def built_def taxonomy_def)

lemma load_built_withoutKeys:
  "loadKeywordIndex withoutKeys built None = (Inr taxonomy, Some taxonomy)"
  by (simp add: loadKeywordIndex_def withoutKeys_def built_def)

lemma embed_sample: "embedText services withOpenAI ''a war film'' = Inr [1]"
  by (simp add: embedText_def services_def withOpenAI_def)

lemma shortlist_sample:
  "findTopSimilar [1] taxonomy (shortlistSize withOpenAI) = Inr (keywords taxonomy)"
  by (simp add: findTopSimilar_def firstEmbedding_def expectedDimensions_def taxonomy_def
      cosineSimilarity_def cosine_def array_sort_def withOpenAI_def)

lemma selected_sample:
  "selectedKeywords services ''war, peace'' = [JString ''war'', JString ''peace'']"
  by (simp add: selectedKeywords_def services_def extractKeywordsFromLLMResponse_def
      extract_try_def trim_def isStrWhiteSpace_def)

lemma allowed_sample: "getAllowedKeywordsSet taxonomy = {''war'', ''love''}"
  by (auto simp: getAllowedKeywordsSet_def taxonomy_def)

lemma keywords_sample: "map keyword (keywords taxonomy) = [''war'', ''love'']"
  by (simp add: taxonomy_def)

lemma size_sample: "length (keywords taxonomy) = 2"
  by (simp add: taxonomy_def)

lemma targets_withOpenAI:
  "targetKeywordCount_min withOpenAI = 10" "targetKeywordCount_max withOpenAI = 15"
  by (simp_all add: withOpenAI_def)

lemma llmBranch_sample:
  "llmBranch services withOpenAI (request\<lparr>useLLM := Some (JBool True)\<rparr>)
     ''a war film'' taxonomy (keywords taxonomy) =
   Matched \<lparr> result_keywords = [''war'', ''love''], result_shortlistSize = 2,
              result_validatedCount = 1, result_method = llm \<rparr>"
proof -
  have "selectedProvider withOpenAI (llmProvider (request\<lparr>useLLM := Some (JBool True)\<rparr>)) = Some OpenAI"
    by (simp add: selectedProvider_def withOpenAI_def request_def)
  moreover have "chatService services OpenAI t s = Inr ''war, peace''" for t s
    by (simp add: services_def)
  ultimately show ?thesis
    by (simp add: llmBranch_def selected_sample allowed_sample keywords_sample size_sample
        targets_withOpenAI validateKeywords_def)
qed

lemma POST_refined_sample:
  "POST services withOpenAI built (request\<lparr>useLLM := Some (JBool True)\<rparr>) None =
     (Matched \<lparr> result_keywords = [''war'', ''love''], result_shortlistSize = 2,
                 result_validatedCount = 1, result_method = llm \<rparr>, Some taxonomy)"
  using POST_shortlisted [of "request\<lparr>useLLM := Some (JBool True)\<rparr>" "''a war film''"
      withOpenAI built None taxonomy "Some taxonomy" services "[1]" "keywords taxonomy"]
    load_built embed_sample shortlist_sample llmBranch_sample
  by (simp add: request_def wantsLLM_def)

lemma parseInt_sample: "parseInt ''abc'' = NaN" "parseInt [] = NaN"
  by (simp_all add: parseInt_def isStrWhiteSpace_def digitValue_def)

theorem POST_keywords_allowed_witness:
  "loadKeywordIndex withOpenAI built None = (Inr taxonomy, Some taxonomy)
   \<and> POST services withOpenAI built (request\<lparr>useLLM := Some (JBool True)\<rparr>) None =
       (Matched \<lparr> result_keywords = [''war'', ''love''], result_shortlistSize = 2,
                   result_validatedCount = 1, result_method = llm \<rparr>, Some taxonomy)
   \<and> set [''war'', ''love''] \<subseteq> getAllowedKeywordsSet taxonomy"
  using POST_keywords_allowed [OF POST_refined_sample load_built] POST_refined_sample load_built
  by simp

section \<open>Refinement and its fallback\<close>

text \<open>
  Claim C6. In the refinement branch (the index is loaded, refinement is requested, the
  description is embedded, the shortlist is found and the provider has answered): if
  fewer keywords survive validation than the configured minimum, the result is the top
  of the shortlist, capped at the configured maximum, and nothing of the provider's
  answer; otherwise it is the validated list, capped at the configured maximum.
\<close>

theorem llm_fallback:
  assumes "description body = Some (JString text)" and "text \<noteq> []"
    and "loadKeywordIndex cfg fs cache = (Inr idx, cache')"
    and "wantsLLM body"
    and "embedText env cfg text = Inr v"
    and "findTopSimilar v idx (shortlistSize cfg) = Inr shortlist"
    and "selectedProvider cfg (llmProvider body) = Some p"
    and "chatService env p text (join '', '' (map keyword shortlist)) = Inr llmContent"
    and "validated = validateKeywords (strings_of (selectedKeywords env llmContent))
                       (getAllowedKeywordsSet idx)"
  shows "POST env cfg fs body cache =
           (Matched \<lparr> result_keywords =
                         (if length validated < targetKeywordCount_min cfg
                          then take (targetKeywordCount_max cfg) (map keyword shortlist)
                          else take (targetKeywordCount_max cfg) validated),
                       result_shortlistSize = length shortlist,
                       result_validatedCount = length validated,
                       result_method = llm \<rparr>, cache')"
proof -
  have "POST env cfg fs body cache = (llmBranch env cfg body text idx shortlist, cache')"
    using POST_shortlisted [OF assms(1,2,3,5,6)] assms(4) by simp
  moreover have
    "filter (\<lambda>k. k \<in> getAllowedKeywordsSet idx)
        (slice0 (map keyword shortlist) (Integer (int (targetKeywordCount_max cfg))))
      = take (targetKeywordCount_max cfg) (map keyword shortlist)"
    using filter_allowed_id [OF shortlist_allowed [OF assms(6)],
        of "Integer (int (targetKeywordCount_max cfg))"]
    by simp
  ultimately show ?thesis
    using assms(7,8,9) by (simp add: llmBranch_def Let_def)
qed

theorem llm_fallback_witness:
  "wantsLLM (request\<lparr>useLLM := Some (JBool True)\<rparr>)
   \<and> validateKeywords (strings_of (selectedKeywords services ''war, peace''))
        (getAllowedKeywordsSet taxonomy) = [''war'']
   \<and> POST services withOpenAI built (request\<lparr>useLLM := Some (JBool True)\<rparr>) None =
       (Matched \<lparr> result_keywords = [''war'', ''love''], result_shortlistSize = 2,
                   result_validatedCount = 1, result_method = llm \<rparr>, Some taxonomy)"
proof -
  let ?body = "request\<lparr>useLLM := Some (JBool True)\<rparr>"
  have d: "description ?body = Some (JString ''a war film'')" and t: "''a war film'' \<noteq> []"
    by (simp_all add: request_def)
  have w: "wantsLLM ?body" by (simp add: wantsLLM_def)
  have p: "selectedProvider withOpenAI (llmProvider ?body) = Some OpenAI"
    by (simp add: selectedProvider_def withOpenAI_def request_def)
  have c: "chatService services OpenAI ''a war film''
             (join '', '' (map keyword (keywords taxonomy))) = Inr ''war, peace''"
    by (simp add: services_def)
  have v: "validateKeywords (strings_of (selectedKeywords services ''war, peace''))
             (getAllowedKeywordsSet taxonomy) = [''war'']"
    by (simp add: selected_sample allowed_sample validateKeywords_def)
  show ?thesis
    using llm_fallback [OF d t load_built w embed_sample shortlist_sample p c v [symmetric]] w v
    by (simp add: targets_withOpenAI keywords_sample size_sample)
qed

section \<open>The requested number of keywords\<close>

text \<open>
  Claim C9, as the code has it. In the direct branch, a keyword count that is a whole
  number \<open>n\<close> other than 0 (and below \<open>10^21\<close> in magnitude, where \<open>String\<close> writes plain
  digits) gives the first \<open>clamp(n, 1, 50)\<close> keywords of the shortlist, filtered through
  the allowed set; without a keyword count the bound is the configured maximum.
\<close>

theorem direct_count:
  assumes "description body = Some (JString text)" and "text \<noteq> []"
    and "loadKeywordIndex cfg fs cache = (Inr idx, cache')"
    and "\<not> wantsLLM body"
    and "embedText env cfg text = Inr v"
    and "findTopSimilar v idx (shortlistSize cfg) = Inr shortlist"
  shows "(\<forall>n. n \<noteq> 0 \<and> \<bar>n\<bar> < 10 ^ 21 \<and> keywordCount body = Some (JNumber (Number_toString n)) \<longrightarrow>
            (\<exists>result. result = filter (\<lambda>k. k \<in> getAllowedKeywordsSet idx)
                                 (take (nat (min (max n 1) 50)) (map keyword shortlist))
              \<and> POST env cfg fs body cache =
                  (Matched \<lparr> result_keywords = result,
                              result_shortlistSize = length shortlist,
                              result_validatedCount = length result,
                              result_method = direct \<rparr>, cache')))
       \<and> (keywordCount body = None \<longrightarrow>
            (\<exists>result. result = filter (\<lambda>k. k \<in> getAllowedKeywordsSet idx)
                                 (take (targetKeywordCount_max cfg) (map keyword shortlist))
              \<and> POST env cfg fs body cache =
                  (Matched \<lparr> result_keywords = result,
                              result_shortlistSize = length shortlist,
                              result_validatedCount = length result,
                              result_method = direct \<rparr>, cache')))"
proof -
  have branch: "POST env cfg fs body cache = (directBranch cfg body idx shortlist, cache')"
    using POST_shortlisted [OF assms(1,2,3,5,6)] assms(4) by simp
  show ?thesis
  proof (intro conjI allI impI)
    fix n :: int
    assume n: "n \<noteq> 0 \<and> \<bar>n\<bar> < 10 ^ 21 \<and> keywordCount body = Some (JNumber (Number_toString n))"
    then have "requestedCount cfg (keywordCount body) = Inr (Integer (min (max n 1) 50))"
      by (simp add: requestedCount_integer)
    moreover have "slice0 xs (Integer (min (max n 1) 50)) = take (nat (min (max n 1) 50)) xs"
      for xs :: "string list"
      by simp
    ultimately show "\<exists>result. result = filter (\<lambda>k. k \<in> getAllowedKeywordsSet idx)
                                 (take (nat (min (max n 1) 50)) (map keyword shortlist))
              \<and> POST env cfg fs body cache =
                  (Matched \<lparr> result_keywords = result,
                              result_shortlistSize = length shortlist,
                              result_validatedCount = length result,
                              result_method = direct \<rparr>, cache')"
      by (simp add: branch directBranch_def Let_def)
  next
    assume "keywordCount body = None"
    then have "requestedCount cfg (keywordCount body) = Inr (Integer (int (targetKeywordCount_max cfg)))"
      by (simp add: requestedCount_def)
    then show "\<exists>result. result = filter (\<lambda>k. k \<in> getAllowedKeywordsSet idx)
                                 (take (targetKeywordCount_max cfg) (map keyword shortlist))
              \<and> POST env cfg fs body cache =
                  (Matched \<lparr> result_keywords = result,
                              result_shortlistSize = length shortlist,
                              result_validatedCount = length result,
                              result_method = direct \<rparr>, cache')"
      by (simp add: branch directBranch_def Let_def)
  qed
qed

theorem direct_count_witness:
  "\<not> wantsLLM (request\<lparr>keywordCount := Some (JNumber (Number_toString 1))\<rparr>)
   \<and> (1 :: int) \<noteq> 0 \<and> \<bar>1 :: int\<bar> < 10 ^ 21
   \<and> POST services withOpenAI built
        (request\<lparr>keywordCount := Some (JNumber (Number_toString 1))\<rparr>) None =
       (Matched \<lparr> result_keywords = [''war''], result_shortlistSize = 2,
                   result_validatedCount = 1, result_method = direct \<rparr>, Some taxonomy)"
proof -
  let ?body = "request\<lparr>keywordCount := Some (JNumber (Number_toString 1))\<rparr>"
  have d: "description ?body = Some (JString ''a war film'')" and t: "''a war film'' \<noteq> []"
    by (simp_all add: request_def)
  have w: "\<not> wantsLLM ?body" by (simp add: wantsLLM_def request_def)
  have k: "keywordCount ?body = Some (JNumber (Number_toString 1))" by simp
  show ?thesis
    using direct_count [OF d t load_built w embed_sample shortlist_sample] w k
    by (simp add: keywords_sample size_sample allowed_sample)
qed

text \<open>
  The count 0 is falsy, so the conditional takes the configured maximum for it: both
  keywords of the shortlist are returned, where \<open>clamp(0, 1, 50) = 1\<close> would keep one.
\<close>

theorem direct_count_zero_counterexample:
  "Number_toString 0 = ''0''
   \<and> \<not> wantsLLM (request\<lparr>keywordCount := Some (JNumber ''0'')\<rparr>)
   \<and> findTopSimilar [1] taxonomy (shortlistSize withOpenAI) = Inr (keywords taxonomy)
   \<and> take (nat (min (max 0 1) 50)) (map keyword (keywords taxonomy)) = [''war'']
   \<and> POST services withOpenAI built (request\<lparr>keywordCount := Some (JNumber ''0'')\<rparr>) None =
       (Matched \<lparr> result_keywords = [''war'', ''love''], result_shortlistSize = 2,
                   result_validatedCount = 2, result_method = direct \<rparr>, Some taxonomy)"
proof -
  let ?body = "request\<lparr>keywordCount := Some (JNumber ''0'')\<rparr>"
  have d: "description ?body = Some (JString ''a war film'')" and t: "''a war film'' \<noteq> []"
    by (simp_all add: request_def)
  have w: "\<not> wantsLLM ?body" by (simp add: wantsLLM_def request_def)
  have "POST services withOpenAI built ?body None =
          (directBranch withOpenAI ?body taxonomy (keywords taxonomy), Some taxonomy)"
    using POST_shortlisted [OF d t load_built embed_sample shortlist_sample] w by simp
  moreover have "Number_toString 0 = ''0''"
    by code_simp
  ultimately show ?thesis
    using w shortlist_sample
    by (simp add: directBranch_def requestedCount_def targets_withOpenAI keywords_sample
        size_sample allowed_sample)
qed

text \<open>
  Claim C10, as the code has it. If the keyword count is truthy and its string form
  does not parse (\<open>parseInt\<close> gives NaN), the clamped count is NaN and the request
  succeeds with an empty list of keywords, in the lexical branch and in the direct
  branch alike.
\<close>

theorem unparsable_count:
  assumes "description body = Some (JString text)" and "text \<noteq> []"
    and "loadKeywordIndex cfg fs cache = (Inr idx, cache')"
    and "\<not> wantsLLM body"
    and "keywordCount body = Some requested" and "truthy requested"
    and "String_of requested = Some form" and "parseInt form = NaN"
  shows "(openaiApiKey cfg = [] \<and> geminiApiKey cfg = [] \<longrightarrow>
            POST env cfg fs body cache =
              (Matched \<lparr> result_keywords = [], result_shortlistSize = length (keywords idx),
                          result_validatedCount = 0, result_method = lexical \<rparr>, cache'))
       \<and> (\<forall>v shortlist.
            embedText env cfg text = Inr v \<and>
            findTopSimilar v idx (shortlistSize cfg) = Inr shortlist \<longrightarrow>
            POST env cfg fs body cache =
              (Matched \<lparr> result_keywords = [], result_shortlistSize = length shortlist,
                          result_validatedCount = 0, result_method = direct \<rparr>, cache'))"
proof (intro conjI allI impI)
  assume "openaiApiKey cfg = [] \<and> geminiApiKey cfg = []"
  then have "POST env cfg fs body cache = (lexicalBranch env cfg body text idx, cache')"
    using POST_lexical [OF assms(1,2,3) _ _ assms(4)] by simp
  then show "POST env cfg fs body cache =
              (Matched \<lparr> result_keywords = [], result_shortlistSize = length (keywords idx),
                          result_validatedCount = 0, result_method = lexical \<rparr>, cache')"
    using requestedCount_NaN [OF assms(6,7,8)] assms(5) by (simp add: lexicalBranch_def)
next
  fix v shortlist
  assume "embedText env cfg text = Inr v \<and> findTopSimilar v idx (shortlistSize cfg) = Inr shortlist"
  then have "POST env cfg fs body cache = (directBranch cfg body idx shortlist, cache')"
    using POST_shortlisted [OF assms(1,2,3)] assms(4) by simp
  then show "POST env cfg fs body cache =
              (Matched \<lparr> result_keywords = [], result_shortlistSize = length shortlist,
                          result_validatedCount = 0, result_method = direct \<rparr>, cache')"
    using requestedCount_NaN [OF assms(6,7,8)] assms(5) by (simp add: directBranch_def)
qed

theorem unparsable_count_witness:
  "truthy (JString ''abc'') \<and> String_of (JString ''abc'') = Some ''abc'' \<and> parseInt ''abc'' = NaN
   \<and> POST services withoutKeys built (request\<lparr>keywordCount := Some (JString ''abc'')\<rparr>) None =
       (Matched \<lparr> result_keywords = [], result_shortlistSize = 2,
                   result_validatedCount = 0, result_method = lexical \<rparr>, Some taxonomy)
   \<and> POST services withOpenAI built (request\<lparr>keywordCount := Some (JString ''abc'')\<rparr>) None =
       (Matched \<lparr> result_keywords = [], result_shortlistSize = 2,
                   result_validatedCount = 0, result_method = direct \<rparr>, Some taxonomy)"
proof -
  let ?body = "request\<lparr>keywordCount := Some (JString ''abc'')\<rparr>"
  have d: "description ?body = Some (JString ''a war film'')" and t: "''a war film'' \<noteq> []"
    by (simp_all add: request_def)
  have w: "\<not> wantsLLM ?body" by (simp add: wantsLLM_def request_def)
  have k: "keywordCount ?body = Some (JString ''abc'')" by simp
  have y: "truthy (JString ''abc'')" and f: "String_of (JString ''abc'') = Some ''abc''"
    by simp_all
  have offline: "openaiApiKey withoutKeys = [] \<and> geminiApiKey withoutKeys = []"
    by (simp add: withoutKeys_def)
  show ?thesis
    using unparsable_count [OF d t load_built_withoutKeys w k y f parseInt_sample(1), of services]
      unparsable_count [OF d t load_built w k y f parseInt_sample(1), of services]
      offline embed_sample shortlist_sample parseInt_sample(1)
    by (simp add: size_sample)
qed

text \<open>
  A falsy count never reaches \<open>parseInt\<close>. The empty string does not parse, yet the
  request is answered like one without a count.
\<close>

theorem unparsable_count_empty_text_counterexample:
  "String_of (JString []) = Some [] \<and> parseInt [] = NaN
   \<and> \<not> wantsLLM (request\<lparr>keywordCount := Some (JString [])\<rparr>)
   \<and> POST services withoutKeys built (request\<lparr>keywordCount := Some (JString [])\<rparr>) None =
       (Matched \<lparr> result_keywords = [''war''], result_shortlistSize = 2,
                   result_validatedCount = 1, result_method = lexical \<rparr>, Some taxonomy)"
proof -
  let ?body = "request\<lparr>keywordCount := Some (JString [])\<rparr>"
  have d: "description ?body = Some (JString ''a war film'')" and t: "''a war film'' \<noteq> []"
    by (simp_all add: request_def)
  have w: "\<not> wantsLLM ?body" by (simp add: wantsLLM_def request_def)
  have offline: "openaiApiKey withoutKeys = []" "geminiApiKey withoutKeys = []"
    by (simp_all add: withoutKeys_def)
  have "lexicalBranch services withoutKeys ?body ''a war film'' taxonomy =
          Matched \<lparr> result_keywords = [''war''], result_shortlistSize = 2,
                     result_validatedCount = 1, result_method = lexical \<rparr>"
    by code_simp
  then show ?thesis
    using POST_lexical [OF d t load_built_withoutKeys offline w, of services] w parseInt_sample(2)
    by simp
qed

section \<open>Loading without a persisted index\<close>

text \<open>
  Claim C3, as the code has it. When no persisted index file exists (and nothing is
  cached): if neither an OpenAI nor a Gemini key is configured, whatever the OpenRouter
  key, and the taxonomy source can be read, the loader synthesizes an index from the
  taxonomy source with every embedding empty, and caches it; if an OpenAI key is
  configured, loading fails with an error.
\<close>

theorem loadKeywordIndex_without_file:
  assumes "keywordIndexFile fs = Missing"
  shows "(openaiApiKey cfg = [] \<and> geminiApiKey cfg = [] \<and> keywordsFile fs = Content keywordsData \<longrightarrow>
            (\<exists>synthesized.
               loadKeywordIndex cfg fs None = (Inr synthesized, Some synthesized)
             \<and> map keyword (keywords synthesized) = map fst keywordsData
             \<and> map path (keywords synthesized) = map snd keywordsData
             \<and> map embedding (keywords synthesized) = map (\<lambda>k. []) keywordsData))
       \<and> (openaiApiKey cfg \<noteq> [] \<longrightarrow>
            loadKeywordIndex cfg fs None = (Inl KeywordIndexNotFound, None))"
  using assms
  by (auto simp: loadKeywordIndex_def buildKeywordIndexFromKeywords_def split_def comp_def)

theorem loadKeywordIndex_without_file_witness:
  "keywordIndexFile unbuilt = Missing
   \<and> openaiApiKey withoutKeys = [] \<and> geminiApiKey withoutKeys = []
   \<and> (\<exists>synthesized.
         loadKeywordIndex withoutKeys unbuilt None = (Inr synthesized, Some synthesized)
       \<and> map keyword (keywords synthesized) = [''war'', ''love'']
       \<and> map path (keywords synthesized) = [[''Themes''], [''Themes'']]
       \<and> map embedding (keywords synthesized) = [[], []])
   \<and> openaiApiKey withOpenAI \<noteq> []
   \<and> loadKeywordIndex withOpenAI unbuilt None = (Inl KeywordIndexNotFound, None)"
proof -
  have m: "keywordIndexFile unbuilt = Missing" by (simp add: unbuilt_def)
  have k: "keywordsFile unbuilt = Content [(''war'', [''Themes'']), (''love'', [''Themes''])]"
    by (simp add: unbuilt_def)
  have off: "openaiApiKey withoutKeys = [] \<and> geminiApiKey withoutKeys = []"
    by (simp add: withoutKeys_def)
  have on: "openaiApiKey withOpenAI \<noteq> []" by (simp add: withOpenAI_def)
  show ?thesis
    using loadKeywordIndex_without_file
        [OF m, of withoutKeys "[(''war'', [''Themes'']), (''love'', [''Themes''])]"]
      loadKeywordIndex_without_file [OF m, of withOpenAI] m k off on
    by simp
qed

text \<open>
  The loader looks at the OpenAI key alone. With only an OpenRouter key configured and
  no persisted index, loading does not fail: the index without embeddings is
  synthesized, which is what the lexical branch of the handler then runs on.
\<close>

theorem loadKeywordIndex_openrouter_counterexample:
  "openrouterApiKey onlyOpenRouter \<noteq> [] \<and> keywordIndexFile unbuilt = Missing
   \<and> loadKeywordIndex onlyOpenRouter unbuilt None =
       (Inr \<lparr> keywords = [\<lparr> keyword = ''war'', path = [''Themes''], embedding = [] \<rparr>,
                          \<lparr> keyword = ''love'', path = [''Themes''], embedding = [] \<rparr>],
              embeddingProvider = None, embeddingModel = None, embeddingDimensions = None \<rparr>,
        Some \<lparr> keywords = [\<lparr> keyword = ''war'', path = [''Themes''], embedding = [] \<rparr>,
                           \<lparr> keyword = ''love'', path = [''Themes''], embedding = [] \<rparr>],
               embeddingProvider = None, embeddingModel = None, embeddingDimensions = None \<rparr>)"
  by (simp add: loadKeywordIndex_def buildKeywordIndexFromKeywords_def onlyOpenRouter_def unbuilt_def)

text \<open>The same happens with only a Gemini key, which the other checks of the program count as an embedding credential.\<close>

lemma loadKeywordIndex_gemini_only:
  "loadKeywordIndex (onlyOpenRouter\<lparr>geminiApiKey := ''g'', openrouterApiKey := []\<rparr>) unbuilt None =
       (Inr \<lparr> keywords = [\<lparr> keyword = ''war'', path = [''Themes''], embedding = [] \<rparr>,
                          \<lparr> keyword = ''love'', path = [''Themes''], embedding = [] \<rparr>],
              embeddingProvider = None, embeddingModel = None, embeddingDimensions = None \<rparr>,
        Some \<lparr> keywords = [\<lparr> keyword = ''war'', path = [''Themes''], embedding = [] \<rparr>,
                           \<lparr> keyword = ''love'', path = [''Themes''], embedding = [] \<rparr>],
               embeddingProvider = None, embeddingModel = None, embeddingDimensions = None \<rparr>)"
  by (simp add: loadKeywordIndex_def buildKeywordIndexFromKeywords_def onlyOpenRouter_def unbuilt_def)

section \<open>Extracting keywords from the provider's text\<close>

lemma stringified_Some:
  "those (map String_of items) = Some texts \<Longrightarrow>
     stringified items = Inr (filter (\<lambda>s. s \<noteq> []) (map trim texts))"
  by (simp add: stringified_def)

lemma stringified_None: "those (map String_of items) = None \<Longrightarrow> stringified items = Inl TypeError"
  by (simp add: stringified_def)

lemma returned_iff: "map_sum id Some outcome = Inr (Some result) \<longleftrightarrow> outcome = Inr result"
  by (cases outcome) auto

text \<open>
  Claim C8, as the code has it. \<open>extractKeywordsFromLLMResponse\<close> returns a list for
  every text. If the text parses as a list whose elements can all be converted with
  \<open>String\<close>, the result is the converted elements, trimmed, without the empty ones; if
  it parses as a record whose \<open>keywords\<close> field is such a list, the result is the same
  projection of that field. In every other case, also when a conversion throws, the raw
  text is split at commas and newlines, every segment is trimmed, and the empty segments
  and those that begin with \<open>[\<close> or \<open>{\<close> are dropped; a text of which no segment is
  left gives the empty list.
\<close>

theorem extractKeywordsFromLLMResponse_cases:
  \<open>(\<forall>items texts.
      parse response = Some (JArray items) \<and> those (map String_of items) = Some texts \<longrightarrow>
      extractKeywordsFromLLMResponse parse response = filter (\<lambda>s. s \<noteq> []) (map trim texts))
   \<and> (\<forall>props items texts.
      parse response = Some (JObject props) \<and> map_of props ''keywords'' = Some (JArray items)
      \<and> those (map String_of items) = Some texts \<longrightarrow>
      extractKeywordsFromLLMResponse parse response = filter (\<lambda>s. s \<noteq> []) (map trim texts))
   \<and> (\<not> (\<exists>items texts.
            parse response = Some (JArray items) \<and> those (map String_of items) = Some texts)
      \<and> \<not> (\<exists>props items texts.
            parse response = Some (JObject props)
            \<and> map_of props ''keywords'' = Some (JArray items)
            \<and> those (map String_of items) = Some texts) \<longrightarrow>
      extractKeywordsFromLLMResponse parse response =
        filter (\<lambda>line. line \<noteq> [] \<and> \<not> startsWith line ''['' \<and> \<not> startsWith line ''{'')
          (map trim (split_each (\<lambda>c. c = CHR '','' \<or> c = CHR 0x0A) response))
      \<and> ((\<forall>segment \<in> set (split_each (\<lambda>c. c = CHR '','' \<or> c = CHR 0x0A) response).
             trim segment = [] \<or> startsWith (trim segment) ''['' \<or> startsWith (trim segment) ''{'') \<longrightarrow>
          extractKeywordsFromLLMResponse parse response = []))\<close>
proof (intro conjI allI impI)
  fix items texts
  assume "parse response = Some (JArray items) \<and> those (map String_of items) = Some texts"
  then show "extractKeywordsFromLLMResponse parse response
               = filter (\<lambda>s. s \<noteq> []) (map trim texts)"
    by (simp add: extractKeywordsFromLLMResponse_def extract_try_def stringified_Some)
next
  fix props items texts
  assume "parse response = Some (JObject props) \<and> map_of props ''keywords'' = Some (JArray items)
      \<and> those (map String_of items) = Some texts"
  then show "extractKeywordsFromLLMResponse parse response
               = filter (\<lambda>s. s \<noteq> []) (map trim texts)"
    by (simp add: extractKeywordsFromLLMResponse_def extract_try_def stringified_Some)
next
  assume other: "\<not> (\<exists>items texts.
            parse response = Some (JArray items) \<and> those (map String_of items) = Some texts)
      \<and> \<not> (\<exists>props items texts.
            parse response = Some (JObject props)
            \<and> map_of props ''keywords'' = Some (JArray items)
            \<and> those (map String_of items) = Some texts)"
  have "extract_try parse response \<noteq> Inr (Some result)" for result
  proof
    assume "extract_try parse response = Inr (Some result)"
    then consider items where "parse response = Some (JArray items)"
        "stringified items = Inr result"
      | props items where "parse response = Some (JObject props)"
        "map_of props ''keywords'' = Some (JArray items)" "stringified items = Inr result"
      by (auto simp: extract_try_def returned_iff split: option.splits json.splits)
    then show False
    proof cases
      case 1
      then show ?thesis using other
        by (cases "those (map String_of items)") (auto simp: stringified_def)
    next
      case 2
      then show ?thesis using other
        by (cases "those (map String_of items)") (auto simp: stringified_def)
    qed
  qed
  then show split: "extractKeywordsFromLLMResponse parse response =
        filter (\<lambda>line. line \<noteq> [] \<and> \<not> startsWith line ''['' \<and> \<not> startsWith line ''{'')
          (map trim (split_each (\<lambda>c. c = CHR '','' \<or> c = CHR 0x0A) response))"
    by (auto simp: extractKeywordsFromLLMResponse_def split: sum.splits option.splits)
  assume "\<forall>segment \<in> set (split_each (\<lambda>c. c = CHR '','' \<or> c = CHR 0x0A) response).
             trim segment = [] \<or> startsWith (trim segment) ''['' \<or> startsWith (trim segment) ''{''"
  then show "extractKeywordsFromLLMResponse parse response = []"
    by (auto simp: split filter_empty_conv)
qed

theorem extractKeywordsFromLLMResponse_cases_witness:
  \<open>extractKeywordsFromLLMResponse parse_sample ''["a","b"]'' = [''a'', ''b'']
   \<and> extractKeywordsFromLLMResponse parse_sample ''{"keywords":["a","b"]}'' = [''a'', ''b'']
   \<and> extractKeywordsFromLLMResponse parse_sample ''a, , b,  '' = [''a'', ''b'']
   \<and> extractKeywordsFromLLMResponse parse_sample ''[a, {b'' = []\<close>
proof -
  have texts: "those (map String_of [JString ''a'', JString ''b'']) = Some [''a'', ''b'']"
    by simp
  have trimmed: "filter (\<lambda>s. s \<noteq> []) (map trim [''a'', ''b'']) = [''a'', ''b'']"
    by (simp add: trim_def isStrWhiteSpace_def)
  have parsed_array: \<open>parse_sample ''["a","b"]'' = Some (JArray [JString ''a'', JString ''b''])\<close>
    by (simp add: parse_sample_def)
  have parsed_record: \<open>parse_sample ''{"keywords":["a","b"]}''
                  = Some (JObject [(''keywords'', JArray [JString ''a'', JString ''b''])])\<close>
    by (simp add: parse_sample_def)
  have field: "map_of [(''keywords'', JArray [JString ''a'', JString ''b''])] ''keywords''
                 = Some (JArray [JString ''a'', JString ''b''])"
    by simp
  have plain: "parse_sample ''a, , b,  '' = None" "parse_sample ''[a, {b'' = None"
    by (simp_all add: parse_sample_def)
  have first: \<open>extractKeywordsFromLLMResponse parse_sample ''["a","b"]'' = [''a'', ''b'']\<close>
    using extractKeywordsFromLLMResponse_cases [of parse_sample \<open>''["a","b"]''\<close>] parsed_array texts trimmed
    by simp
  have second: \<open>extractKeywordsFromLLMResponse parse_sample ''{"keywords":["a","b"]}'' = [''a'', ''b'']\<close>
    using extractKeywordsFromLLMResponse_cases [of parse_sample \<open>''{"keywords":["a","b"]}''\<close>]
      parsed_record field texts trimmed
    by simp
  have third: "extractKeywordsFromLLMResponse parse_sample ''a, , b,  '' = [''a'', ''b'']"
    using extractKeywordsFromLLMResponse_cases [of parse_sample "''a, , b,  ''"] plain(1)
    by (simp add: trim_def isStrWhiteSpace_def)
  have fourth: "extractKeywordsFromLLMResponse parse_sample ''[a, {b'' = []"
    using extractKeywordsFromLLMResponse_cases [of parse_sample "''[a, {b''"] plain(2)
    by (simp add: trim_def isStrWhiteSpace_def)
  show ?thesis using first second third fourth by simp
qed

text \<open>
  A parsed list is not always returned converted: \<open>String\<close> throws on an object with
  an own property \<open>toString\<close>, the \<open>catch\<close> swallows the TypeError, and the raw text
  is split instead.
\<close>

theorem extractKeywordsFromLLMResponse_toString_counterexample:
  \<open>parse_sample ''[{"toString":1},"x"]''
      = Some (JArray [JObject [(''toString'', JNumber ''1'')], JString ''x''])
   \<and> String_of (JObject [(''toString'', JNumber ''1'')]) = None
   \<and> extractKeywordsFromLLMResponse parse_sample ''[{"toString":1},"x"]'' = [''"x"]'']\<close>
  by (simp add: parse_sample_def extractKeywordsFromLLMResponse_def extract_try_def
      stringified_def trim_def isStrWhiteSpace_def)

section \<open>The lexical ranking\<close>

lemma set_place: "set (place cmp x ys) = insert x (set ys)"
  by (induction ys) auto

lemma sorted_place:
  assumes total: "\<And>a b. cmp a b \<le> 0 \<or> cmp b a \<le> 0"
    and trans: "\<And>a b c. cmp a b \<le> 0 \<Longrightarrow> cmp b c \<le> 0 \<Longrightarrow> cmp a c \<le> 0"
    and sorted: "sorted_wrt (\<lambda>a b. cmp a b \<le> 0) ys"
  shows "sorted_wrt (\<lambda>a b. cmp a b \<le> 0) (place cmp x ys)"
  using sorted
proof (induction ys)
  case Nil
  then show ?case by simp
next
  case (Cons y ys)
  show ?case
  proof (cases "cmp x y \<le> 0")
    case True
    then have "\<forall>z\<in>set ys. cmp x z \<le> 0" using Cons.prems trans by auto
    with True Cons.prems show ?thesis by simp
  next
    case False
    then have "cmp y x \<le> 0" using total by blast
    with False Cons show ?thesis by (auto simp: set_place)
  qed
qed

lemma sorted_array_sort:
  assumes "\<And>a b. cmp a b \<le> 0 \<or> cmp b a \<le> 0"
    and "\<And>a b c. cmp a b \<le> 0 \<Longrightarrow> cmp b c \<le> 0 \<Longrightarrow> cmp a c \<le> 0"
  shows "sorted_wrt (\<lambda>a b. cmp a b \<le> 0) (array_sort cmp xs)"
  by (induction xs) (simp_all add: array_sort_def sorted_place [OF assms])

lemma byScoreThenKeyword_le:
  "byScoreThenKeyword compare a b \<le> 0 \<longleftrightarrow>
     snd b < snd a \<or> (snd a = snd b \<and> compare (fst a) (fst b) \<le> 0)"
  by (auto simp: byScoreThenKeyword_def)

lemma set_array_sort: "set (array_sort cmp xs) = set xs"
  using mset_array_sort [of cmp xs] by (metis set_mset_mset)

lemma ranked_keywords_allowed:
  "set (map fst (keywordsWithScore env text idx)) \<subseteq> getAllowedKeywordsSet idx"
  by (auto simp: keywordsWithScore_def set_array_sort getAllowedKeywordsSet_def)

text \<open>
  Claim C4, as the code has it. The score of a keyword is 3 if the whole lower-cased
  keyword occurs in the lower-cased description, plus the number of its words (runs of
  lower-case letters and digits, longer than 2) that occur in the description. So an
  entry whose whole keyword occurs scores higher than an entry matched by words only
  as long as the latter has fewer than 3 more matching words than the former. The
  ranking holds exactly the entries of positive score, in descending order of score,
  entries of equal score ordered by \<open>localeCompare\<close> of the keyword (taken to be a total
  preorder); the keywords returned in the lexical branch are a leading part of it.
\<close>

theorem lexical_ranking:
  assumes total: "\<forall>a b. localeCompare env a b \<le> 0 \<or> localeCompare env b a \<le> 0"
    and trans: "\<forall>a b c. localeCompare env a b \<le> 0 \<and> localeCompare env b c \<le> 0
                  \<longrightarrow> localeCompare env a c \<le> 0"
    and d: "d = toLowerCase text"
    and ranked: "ranked = keywordsWithScore env text idx"
  shows "(\<forall>k. lexicalScore d k
              = (if includes_text d (toLowerCase k) then 3 else 0) + overlap d (toLowerCase k))
       \<and> (\<forall>a b. includes_text d (toLowerCase a) \<and> \<not> includes_text d (toLowerCase b)
              \<and> overlap d (toLowerCase b) < overlap d (toLowerCase a) + 3
              \<longrightarrow> lexicalScore d b < lexicalScore d a)
       \<and> mset ranked = mset (filter (\<lambda>item. 0 < snd item)
                               (map (\<lambda>entry. (keyword entry, lexicalScore d (keyword entry)))
                                  (keywords idx)))
       \<and> sorted_wrt (\<lambda>a b. snd b < snd a
                            \<or> (snd a = snd b \<and> localeCompare env (fst a) (fst b) \<le> 0)) ranked
       \<and> (\<forall>cfg fs body cache cache' r c.
             description body = Some (JString text) \<and> text \<noteq> []
             \<and> loadKeywordIndex cfg fs cache = (Inr idx, cache')
             \<and> openaiApiKey cfg = [] \<and> geminiApiKey cfg = [] \<and> \<not> wantsLLM body
             \<and> POST env cfg fs body cache = (Matched r, c)
             \<longrightarrow> (\<exists>cnt. result_keywords r = slice0 (map fst ranked) cnt))"
proof (intro conjI allI impI)
  fix k
  show "lexicalScore d k
          = (if includes_text d (toLowerCase k) then 3 else 0) + overlap d (toLowerCase k)"
    by (simp add: lexicalScore_def)
next
  fix a b
  assume "includes_text d (toLowerCase a) \<and> \<not> includes_text d (toLowerCase b)
              \<and> overlap d (toLowerCase b) < overlap d (toLowerCase a) + 3"
  then show "lexicalScore d b < lexicalScore d a"
    by (simp add: lexicalScore_def)
next
  show "mset ranked = mset (filter (\<lambda>item. 0 < snd item)
                               (map (\<lambda>entry. (keyword entry, lexicalScore d (keyword entry)))
                                  (keywords idx)))"
    by (simp add: ranked d keywordsWithScore_def mset_array_sort)
next
  let ?cmp = "byScoreThenKeyword (localeCompare env)"
  have "?cmp a b \<le> 0 \<or> ?cmp b a \<le> 0" for a b
    using total [rule_format, of "fst a" "fst b"]
    by (auto simp: byScoreThenKeyword_le)
  moreover have "?cmp a b \<le> 0 \<Longrightarrow> ?cmp b c \<le> 0 \<Longrightarrow> ?cmp a c \<le> 0" for a b c
    using trans [rule_format, of "fst a" "fst b" "fst c"]
    by (auto simp: byScoreThenKeyword_le)
  ultimately have "sorted_wrt (\<lambda>a b. ?cmp a b \<le> 0) (array_sort ?cmp xs)" for xs
    by (rule sorted_array_sort)
  then show "sorted_wrt (\<lambda>a b. snd b < snd a
                            \<or> (snd a = snd b \<and> localeCompare env (fst a) (fst b) \<le> 0)) ranked"
    by (simp add: ranked keywordsWithScore_def byScoreThenKeyword_le)
next
  fix cfg fs body cache cache' r c
  assume a: "description body = Some (JString text) \<and> text \<noteq> []
             \<and> loadKeywordIndex cfg fs cache = (Inr idx, cache')
             \<and> openaiApiKey cfg = [] \<and> geminiApiKey cfg = [] \<and> \<not> wantsLLM body
             \<and> POST env cfg fs body cache = (Matched r, c)"
  then have "POST env cfg fs body cache = (lexicalBranch env cfg body text idx, cache')"
    using POST_lexical [of body "text" cfg fs cache idx cache' env] by simp
  with a have "lexicalBranch env cfg body text idx = Matched r" by simp
  then obtain cnt where "result_keywords r
      = filter (\<lambda>k. k \<in> getAllowedKeywordsSet idx) (slice0 (map fst ranked) cnt)"
    by (auto simp: lexicalBranch_def Let_def ranked split: sum.splits)
  moreover have "set (map fst ranked) \<subseteq> getAllowedKeywordsSet idx"
    unfolding ranked by (rule ranked_keywords_allowed)
  ultimately have "result_keywords r = slice0 (map fst ranked) cnt"
    by (simp add: filter_allowed_id)
  then show "\<exists>cnt. result_keywords r = slice0 (map fst ranked) cnt" ..
qed

lemma byCodeUnit_total: "byCodeUnit a b \<le> 0 \<or> byCodeUnit b a \<le> 0"
  by (auto simp: byCodeUnit_def)

lemma byCodeUnit_trans: "byCodeUnit a b \<le> 0 \<Longrightarrow> byCodeUnit b c \<le> 0 \<Longrightarrow> byCodeUnit a c \<le> 0"
  by (auto simp: byCodeUnit_def split: if_splits)

lemma ranked_sample:
  "keywordsWithScore services pitch lexicon
     = [(''Space war robot love story'', 4), (''War'', 4), (''AI'', 3)]"
  by code_simp

theorem lexical_ranking_witness:
  "keywordsWithScore services pitch lexicon
     = [(''Space war robot love story'', 4), (''War'', 4), (''AI'', 3)]
   \<and> mset (keywordsWithScore services pitch lexicon)
     = mset (filter (\<lambda>item. 0 < snd item)
               (map (\<lambda>entry. (keyword entry, lexicalScore (toLowerCase pitch) (keyword entry)))
                  (keywords lexicon)))
   \<and> sorted_wrt (\<lambda>a b. snd b < snd a
                      \<or> (snd a = snd b \<and> localeCompare services (fst a) (fst b) \<le> 0))
        (keywordsWithScore services pitch lexicon)"
proof -
  have total: "\<forall>a b. localeCompare services a b \<le> 0 \<or> localeCompare services b a \<le> 0"
    by (simp add: services_def byCodeUnit_total)
  have trans: "\<forall>a b c. localeCompare services a b \<le> 0 \<and> localeCompare services b c \<le> 0
                  \<longrightarrow> localeCompare services a c \<le> 0"
    using byCodeUnit_trans by (auto simp: services_def)
  show ?thesis
    using lexical_ranking [OF total trans refl refl, of pitch lexicon] ranked_sample
    by blast
qed

text \<open>
  Matching words alone can outscore an exact occurrence: \<open>AI\<close> occurs in the description
  and scores 3, the keyword with four matching words does not occur and scores 4, and
  is ranked first.
\<close>

theorem lexical_ranking_partial_overlap_counterexample:
  "includes_text (toLowerCase pitch) (toLowerCase ''AI'')
   \<and> \<not> includes_text (toLowerCase pitch) (toLowerCase ''Space war robot love story'')
   \<and> lexicalScore (toLowerCase pitch) ''AI'' = 3
   \<and> lexicalScore (toLowerCase pitch) ''Space war robot love story'' = 4
   \<and> map fst (keywordsWithScore services pitch lexicon)
       = [''Space war robot love story'', ''War'', ''AI'']"
  by code_simp

end
